theory Spec2Isabelle
  imports Complex_Main "HOL-Library.Word" "HOL-Library.Product_Lexorder"
    "HOL-Library.List_Lexorder" "HOL-Library.Char_ord"
begin

section \<open>Data model\<close>

text \<open>
  Python's \<open>datetime.date\<close>: year, month and day, compared as the tuple
  (year, month, day). \<open>datetime.datetime\<close> adds the time of day down to the
  microsecond.
\<close>

datatype date = Date (year: nat) (month: nat) (day: nat)

datatype datetime =
  Datetime (dt_date: date) (hour: nat) (minute: nat) (second: nat) (microsecond: nat)

definition date_key :: "date \<Rightarrow> nat \<times> nat \<times> nat" where
  "date_key d = (year d, month d, day d)"

definition date_le :: "date \<Rightarrow> date \<Rightarrow> bool" where
  "date_le a b = (date_key a \<le> date_key b)"

definition datetime_key ::
  "datetime \<Rightarrow> (nat \<times> nat \<times> nat) \<times> nat \<times> nat \<times> nat \<times> nat" where
  "datetime_key t = (date_key (dt_date t), hour t, minute t, second t, microsecond t)"

text \<open>What Python's constructors accept: the fields a date object can hold.\<close>

definition valid_date :: "date \<Rightarrow> bool" where
  "valid_date d = (1 \<le> year d \<and> year d \<le> 9999 \<and> 1 \<le> month d \<and> month d \<le> 12
     \<and> 1 \<le> day d \<and> day d \<le> 31)"

definition digit :: "nat \<Rightarrow> char" where
  "digit n = ''0123456789'' ! (n mod 10)"

definition pad2 :: "nat \<Rightarrow> string" where
  "pad2 n = [digit (n div 10), digit n]"

definition pad4 :: "nat \<Rightarrow> string" where
  "pad4 n = [digit (n div 1000), digit (n div 100), digit (n div 10), digit n]"

text \<open>\<open>date.isoformat()\<close>: YYYY-MM-DD.\<close>

definition isoformat :: "date \<Rightarrow> string" where
  "isoformat d = pad4 (year d) @ ''-'' @ pad2 (month d) @ ''-'' @ pad2 (day d)"

text \<open>
  \<open>timestamp.strftime('%Y-%m-%d %H:%M:%S')\<close>. The C library prints the year of
  \<open>%Y\<close> in decimal without leading zeros, so a year below 1000 has fewer than
  four digits here, unlike in \<open>isoformat\<close>. The microseconds are not printed.
\<close>

definition year_text :: "nat \<Rightarrow> string" where
  "year_text y =
     (if y < 10 then [digit y]
      else if y < 100 then pad2 y
      else if y < 1000 then [digit (y div 100), digit (y div 10), digit y]
      else pad4 y)"

definition strftime :: "datetime \<Rightarrow> string" where
  "strftime t = year_text (year (dt_date t)) @ ''-'' @ pad2 (month (dt_date t)) @ ''-''
     @ pad2 (day (dt_date t)) @ '' '' @ pad2 (hour t) @ '':'' @ pad2 (minute t)
     @ '':'' @ pad2 (second t)"

text \<open>
  Modelled from the spec: the tables of the \<open>database\<close> module, which is not among
  the sources. Student has the internal id, the external student_id and the name;
  Face holds one encoding owned by a student; Attendance is a (student, date)
  record with a timestamp and a status. Only the columns the routes read or write
  are kept. A table is the list of its rows in insertion order.
\<close>

record student =
  s_id :: int
  s_student_id :: string
  s_name :: string

record 'e face =
  f_encoding :: 'e
  f_student_id :: int

record attendance =
  a_student_id :: int
  a_date :: date
  a_timestamp :: datetime
  a_status :: string

text \<open>The state a request runs in: the three tables and the application log.\<close>

record 'e state =
  students :: "student list"
  faces :: "'e face list"
  attendances :: "attendance list"
  log :: "string list"

type_synonym bytes = "8 word list"

text \<open>A face location as the library gives it: (top, right, bottom, left).\<close>

type_synonym location = "int \<times> int \<times> int \<times> int"

text \<open>
  What the routes take from outside the repository. The image library
  (\<open>cv2\<close>, \<open>face_recognition\<close>) and the standard library's date parser are
  parameters; a call that raises returns \<open>Inl\<close> of the exception's string.
  \<open>read_error n\<close> tells whether the n-th database read of the request raises,
  \<open>insert_error i\<close> whether the add and commit for the i-th detected face raises,
  and \<open>utcnow i\<close> is the clock read for that face. \<open>default_status\<close> is the
  column default of Attendance.status, which \<open>recognize\<close> never sets itself.
\<close>

record ('i, 'e) env =
  imdecode :: "bytes \<Rightarrow> string + 'i option"
  cvtColor :: "'i \<Rightarrow> 'i"
  face_locations :: "'i \<Rightarrow> string + location list"
  face_encodings :: "'i \<Rightarrow> location list \<Rightarrow> string + 'e list"
  face_distance :: "'e \<Rightarrow> 'e \<Rightarrow> real"
  confidence_of :: "real \<Rightarrow> real"
  today :: date
  utcnow :: "nat \<Rightarrow> datetime"
  read_error :: "nat \<Rightarrow> string option"
  insert_error :: "nat \<Rightarrow> string option"
  default_status :: string
  strptime :: "string \<Rightarrow> string + date"

section \<open>The face matcher\<close>

text \<open>The position of the first least element, as \<open>numpy.argmin\<close> gives it.\<close>

fun argmin :: "real list \<Rightarrow> nat" where
  "argmin [] = 0"
| "argmin [x] = 0"
| "argmin (x # y # ys) =
     (let j = argmin (y # ys) in if x \<le> (y # ys) ! j then 0 else Suc j)"

text \<open>
  Modelled from the spec: \<open>compare_face\<close> of \<open>models.face_recognition_model\<close>,
  which is not among the sources. Given the known encodings and a live encoding
  it computes the distance to each known encoding, selects the minimum, and
  accepts it as a match only if that distance is below the tolerance; it returns
  the matched index and a derived confidence score, or no match. The distance is
  the external library's, and the score is some function of the least distance.
  With no known encoding there is no minimum and hence no match; \<open>recognize\<close>
  returns before calling the matcher in that case.
\<close>

definition compare_face ::
  "('e \<Rightarrow> 'e \<Rightarrow> real) \<Rightarrow> (real \<Rightarrow> real) \<Rightarrow> 'e list \<Rightarrow> 'e \<Rightarrow> real \<Rightarrow> nat option \<times> real" where
  "compare_face distance conf known_encodings live_encoding tolerance =
     (if known_encodings = [] then (None, 0)
      else
        let distances = map (\<lambda>k. distance k live_encoding) known_encodings;
            best = argmin distances;
            d = distances ! best
        in if d < tolerance then (Some best, conf d) else (None, conf d))"

text \<open>
  A distance and a score on one-dimensional encodings, to run the matcher and the
  endpoint on concrete inputs.
\<close>

definition line_distance :: "real \<Rightarrow> real \<Rightarrow> real" where
  "line_distance a b = \<bar>a - b\<bar>"

definition line_confidence :: "real \<Rightarrow> real" where
  "line_confidence d = 1 - d"

section \<open>Requests and responses\<close>

record request =
  image :: "bytes option"

record report_args =
  start_date :: "string option"
  end_date :: "string option"

text \<open>
  One entry of the recognition results. The score is kept as the matcher
  returns it; the source prints it as a percentage with two decimals.
\<close>

record result =
  r_name :: string
  r_confidence :: real
  r_location :: "int list"

record report_row =
  rr_id :: int
  rr_student_id :: string
  rr_name :: string
  present_count :: nat
  present_dates :: "string list"

text \<open>
  The body of a response: the JSON objects the routes build, and the CSV download
  as the list of rows handed to the writer together with its Content-Disposition
  header.
\<close>

datatype body =
    Error string
  | Results "result list"
  | ResultsLocations "result list" "location list"
  | Report "report_row list"
  | Csv "string list list" string

type_synonym response = "nat \<times> body"

section \<open>POST /api/recognize\<close>

text \<open>
  \<open>db.session.query(Face.encoding, Student.id, Student.name).join(Student).all()\<close>:
  every face with the student that owns it.
\<close>

definition known_faces :: "'e state \<Rightarrow> ('e \<times> int \<times> string) list" where
  "known_faces st =
     concat (map (\<lambda>f. map (\<lambda>s. (f_encoding f, s_id s, s_name s))
                          (filter (\<lambda>s. s_id s = f_student_id f) (students st)))
                 (faces st))"

text \<open>\<open>Attendance(student_id=student_pk, date=today, timestamp=datetime.utcnow())\<close>.\<close>

definition new_attendance :: "('i, 'e) env \<Rightarrow> nat \<Rightarrow> int \<Rightarrow> attendance" where
  "new_attendance env i student_pk =
     \<lparr>a_student_id = student_pk, a_date = today env, a_timestamp = utcnow env i,
      a_status = default_status env\<rparr>"

text \<open>
  Marking attendance for a matched student (the existence check and the guarded
  insert). The result is the name to report, or the exception that leaves the
  loop when the existence query raises.
\<close>

definition mark_attendance ::
  "('i, 'e) env \<Rightarrow> nat \<Rightarrow> int \<Rightarrow> string \<Rightarrow> 'e state \<Rightarrow> 'e state \<times> (string + string)" where
  "mark_attendance env i student_pk name st =
     (case read_error env (Suc i) of
        Some e \<Rightarrow> (st, Inl e)
      | None \<Rightarrow>
          (case find (\<lambda>a. a_student_id a = student_pk \<and> a_date a = today env) (attendances st) of
             Some already_marked \<Rightarrow> (st, Inr name)
           | None \<Rightarrow>
               (case insert_error env i of
                  None \<Rightarrow>
                    (st\<lparr>attendances := attendances st @ [new_attendance env i student_pk]\<rparr>,
                     Inr (name @ '' (Marked)''))
                | Some e \<Rightarrow>
                    (st\<lparr>log := log st @ [''Error marking attendance: '' @ e]\<rparr>, Inr name))))"

text \<open>The body of the loop over the detected faces.\<close>

definition recognize_face ::
  "('i, 'e) env \<Rightarrow> 'e list \<Rightarrow> int list \<Rightarrow> string list \<Rightarrow> nat \<Rightarrow> 'e state \<Rightarrow> location \<times> 'e
     \<Rightarrow> 'e state \<times> (string + result)" where
  "recognize_face env known_encodings known_student_ids known_names i st face =
     (case face of ((top', right, bottom, left), live_encoding) \<Rightarrow>
        (case compare_face (face_distance env) (confidence_of env) known_encodings live_encoding (1/2) of
           (None, confidence) \<Rightarrow>
             (st, Inr \<lparr>r_name = ''Unknown'', r_confidence = confidence,
                       r_location = [top', right, bottom, left]\<rparr>)
         | (Some match_idx, confidence) \<Rightarrow>
             if match_idx < length known_names \<and> match_idx < length known_student_ids then
               (case mark_attendance env i (known_student_ids ! match_idx) (known_names ! match_idx) st of
                  (st', Inl e) \<Rightarrow> (st', Inl e)
                | (st', Inr name) \<Rightarrow>
                    (st', Inr \<lparr>r_name = name, r_confidence = confidence,
                              r_location = [top', right, bottom, left]\<rparr>))
             else (st, Inl ''list index out of range'')))"

fun recognize_loop ::
  "('i, 'e) env \<Rightarrow> 'e list \<Rightarrow> int list \<Rightarrow> string list \<Rightarrow> nat \<Rightarrow> 'e state \<Rightarrow> (location \<times> 'e) list
     \<Rightarrow> 'e state \<times> (string + result list)" where
  "recognize_loop env ke ki kn i st [] = (st, Inr [])"
| "recognize_loop env ke ki kn i st (face # rest) =
     (case recognize_face env ke ki kn i st face of
        (st', Inl e) \<Rightarrow> (st', Inl e)
      | (st', Inr r) \<Rightarrow>
          (case recognize_loop env ke ki kn (Suc i) st' rest of
             (st'', Inl e) \<Rightarrow> (st'', Inl e)
           | (st'', Inr rs) \<Rightarrow> (st'', Inr (r # rs))))"

text \<open>The \<open>try\<close> block of the endpoint: a response, or the exception that leaves it.\<close>

definition recognize_try ::
  "('i, 'e) env \<Rightarrow> bytes \<Rightarrow> 'e state \<Rightarrow> 'e state \<times> (string + response)" where
  "recognize_try env in_memory st =
     (case imdecode env in_memory of
        Inl e \<Rightarrow> (st, Inl e)
      | Inr None \<Rightarrow> (st, Inr (400, Error ''could not decode image''))
      | Inr (Some img) \<Rightarrow>
          (let rgb_img = cvtColor env img in
           case face_locations env rgb_img of
             Inl e \<Rightarrow> (st, Inl e)
           | Inr locations \<Rightarrow>
               (case face_encodings env rgb_img locations of
                  Inl e \<Rightarrow> (st, Inl e)
                | Inr live_encodings \<Rightarrow>
                    (case read_error env 0 of
                       Some e \<Rightarrow> (st, Inl e)
                     | None \<Rightarrow>
                         (let known = known_faces st in
                          if known = [] then (st, Inr (200, ResultsLocations [] locations))
                          else
                            (case recognize_loop env (map fst known) (map (fst \<circ> snd) known)
                                    (map (snd \<circ> snd) known) 0 st (zip locations live_encodings) of
                               (st', Inl e) \<Rightarrow> (st', Inl e)
                             | (st', Inr results) \<Rightarrow> (st', Inr (200, Results results))))))))"

definition recognize :: "('i, 'e) env \<Rightarrow> request \<Rightarrow> 'e state \<Rightarrow> 'e state \<times> response" where
  "recognize env req st =
     (case image req of
        None \<Rightarrow> (st, (400, Error ''no image uploaded''))
      | Some file \<Rightarrow>
          (case recognize_try env file st of
             (st', Inr resp) \<Rightarrow> (st', resp)
           | (st', Inl e) \<Rightarrow>
               (st'\<lparr>log := log st' @ [''Recognition error: '' @ e]\<rparr>, (500, Error e))))"

text \<open>A sequence of recognition requests, each in its own environment.\<close>

fun run_requests :: "(('i, 'e) env \<times> request) list \<Rightarrow> 'e state \<Rightarrow> 'e state" where
  "run_requests [] st = st"
| "run_requests ((env, req) # rest) st = run_requests rest (fst (recognize env req st))"

section \<open>GET /api/reports and GET /api/reports/export\<close>

text \<open>
  \<open>datetime.strptime(request.args.get(...), '%Y-%m-%d').date()\<close>: a missing
  parameter is None, which the parser refuses with a TypeError.
\<close>

definition parse_date :: "('i, 'e) env \<Rightarrow> string option \<Rightarrow> string + date" where
  "parse_date env arg =
     (case arg of
        None \<Rightarrow> Inl ''strptime() argument 1 must be str, not None''
      | Some s \<Rightarrow> strptime env s)"

text \<open>How an f-string prints a request parameter: None prints as the word None.\<close>

definition format_arg :: "string option \<Rightarrow> string" where
  "format_arg arg = (case arg of None \<Rightarrow> ''None'' | Some s \<Rightarrow> s)"

definition in_range :: "date \<Rightarrow> date \<Rightarrow> date \<Rightarrow> bool" where
  "in_range start_d end_d d = (date_le start_d d \<and> date_le d end_d)"

text \<open>
  The loop over the students. The set of present dates becomes a list without
  duplicates. Python gives the elements of a set in an order that is not fixed;
  the list here stands for the set, and only its elements and its length are
  meant.
\<close>

fun report_loop ::
  "('i, 'e) env \<Rightarrow> date \<Rightarrow> date \<Rightarrow> 'e state \<Rightarrow> nat \<Rightarrow> student list \<Rightarrow> string + report_row list" where
  "report_loop env start_d end_d st i [] = Inr []"
| "report_loop env start_d end_d st i (s # rest) =
     (case read_error env (Suc i) of
        Some e \<Rightarrow> Inl e
      | None \<Rightarrow>
          (let records = filter (\<lambda>a. a_student_id a = s_id s \<and> in_range start_d end_d (a_date a))
                           (attendances st);
               dates = remdups (map (\<lambda>r. isoformat (a_date r)) records);
               row = \<lparr>rr_id = s_id s, rr_student_id = s_student_id s, rr_name = s_name s,
                      present_count = length dates, present_dates = dates\<rparr>
           in case report_loop env start_d end_d st (Suc i) rest of
                Inl e \<Rightarrow> Inl e
              | Inr rows \<Rightarrow> Inr (row # rows)))"

definition get_reports_try :: "('i, 'e) env \<Rightarrow> report_args \<Rightarrow> 'e state \<Rightarrow> string + response" where
  "get_reports_try env args st =
     (case parse_date env (start_date args) of
        Inl e \<Rightarrow> Inl e
      | Inr start_d \<Rightarrow>
          (case parse_date env (end_date args) of
             Inl e \<Rightarrow> Inl e
           | Inr end_d \<Rightarrow>
               (case read_error env 0 of
                  Some e \<Rightarrow> Inl e
                | None \<Rightarrow>
                    (case report_loop env start_d end_d st 0 (students st) of
                       Inl e \<Rightarrow> Inl e
                     | Inr report_data \<Rightarrow> Inr (200, Report report_data)))))"

definition get_reports_data :: "('i, 'e) env \<Rightarrow> report_args \<Rightarrow> 'e state \<Rightarrow> response" where
  "get_reports_data env args st =
     (case get_reports_try env args st of
        Inr resp \<Rightarrow> resp
      | Inl e \<Rightarrow> (400, Error e))"

text \<open>
  \<open>db.session.query(Attendance, Student).join(Student)\<close>: every attendance row
  with the student it refers to.
\<close>

definition attendance_join :: "'e state \<Rightarrow> (attendance \<times> student) list" where
  "attendance_join st =
     concat (map (\<lambda>a. map (\<lambda>s. (a, s)) (filter (\<lambda>s. s_id s = a_student_id a) (students st)))
                 (attendances st))"

text \<open>
  The export: the joined rows dated within the range, ordered by date, student
  name and timestamp (rows that agree on all three keep the order of the table),
  written after the header row.
\<close>

definition csv_header :: "string list" where
  "csv_header = [''Student Name'', ''Student ID'', ''Date'', ''Time'', ''Status'']"

definition csv_row :: "attendance \<times> student \<Rightarrow> string list" where
  "csv_row p = (case p of (att, student) \<Rightarrow>
     [s_name student, s_student_id student, isoformat (a_date att),
      strftime (a_timestamp att), a_status att])"

definition export_try :: "('i, 'e) env \<Rightarrow> report_args \<Rightarrow> 'e state \<Rightarrow> string + response" where
  "export_try env args st =
     (case parse_date env (start_date args) of
        Inl e \<Rightarrow> Inl e
      | Inr start_d \<Rightarrow>
          (case parse_date env (end_date args) of
             Inl e \<Rightarrow> Inl e
           | Inr end_d \<Rightarrow>
               (case read_error env 0 of
                  Some e \<Rightarrow> Inl e
                | None \<Rightarrow>
                    (let records =
                           sort_key (\<lambda>(a, s). (date_key (a_date a), s_name s, datetime_key (a_timestamp a)))
                             (filter (\<lambda>(a, s). in_range start_d end_d (a_date a)) (attendance_join st));
                         output = csv_header # map csv_row records
                     in Inr (200, Csv output
                          (''attachment;filename=attendance_report_'' @ format_arg (start_date args)
                             @ ''_to_'' @ format_arg (end_date args) @ ''.csv''))))))"

definition export_csv :: "('i, 'e) env \<Rightarrow> report_args \<Rightarrow> 'e state \<Rightarrow> response" where
  "export_csv env args st =
     (case export_try env args st of
        Inr resp \<Rightarrow> resp
      | Inl e \<Rightarrow> (400, Error e))"

section \<open>Invariants and sample data\<close>

text \<open>The (student_id, date) pair an attendance row is for.\<close>

definition att_key :: "attendance \<Rightarrow> int \<times> date" where
  "att_key a = (a_student_id a, a_date a)"

text \<open>The attendance rows for one student on one date.\<close>

definition rows_for :: "int \<Rightarrow> date \<Rightarrow> attendance list \<Rightarrow> attendance list" where
  "rows_for student_pk d atts = filter (\<lambda>a. a_student_id a = student_pk \<and> a_date a = d) atts"

text \<open>
  The integrity of the schema: Student.id is the primary key, and every attendance
  row refers to a student of the table.
\<close>

definition primary_key_ok :: "'e state \<Rightarrow> bool" where
  "primary_key_ok st = distinct (map s_id (students st))"

definition foreign_key_ok :: "'e state \<Rightarrow> bool" where
  "foreign_key_ok st = list_all (\<lambda>a. a_student_id a \<in> set (map s_id (students st))) (attendances st)"

text \<open>
  A sample environment: the decoded image is the list of the faces in it, each a
  location and a one-dimensional encoding; the parser knows two dates.
\<close>

definition sample_strptime :: "string \<Rightarrow> string + date" where
  "sample_strptime s =
     (if s = ''2024-03-01'' then Inr (Date 2024 3 1)
      else if s = ''2024-03-31'' then Inr (Date 2024 3 31)
      else Inl ''time data does not match format'')"

definition sample_env ::
  "string + (location \<times> real) list option \<Rightarrow> (nat \<Rightarrow> string option) \<Rightarrow> (nat \<Rightarrow> string option)
     \<Rightarrow> ((location \<times> real) list, real) env" where
  "sample_env decoded rerr ierr =
     \<lparr>imdecode = (\<lambda>b. decoded), cvtColor = (\<lambda>img. img),
      face_locations = (\<lambda>img. Inr (map fst img)),
      face_encodings = (\<lambda>img locs. Inr (map snd img)),
      face_distance = line_distance, confidence_of = line_confidence,
      today = Date 2024 3 1, utcnow = (\<lambda>i. Datetime (Date 2024 3 1) 9 0 i 0),
      read_error = rerr, insert_error = ierr, default_status = ''present'',
      strptime = sample_strptime\<rparr>"

definition no_error :: "nat \<Rightarrow> string option" where
  "no_error n = None"

definition locked :: "nat \<Rightarrow> string option" where
  "locked n = Some ''database is locked''"

definition sample_state :: "real state" where
  "sample_state =
     \<lparr>students = [\<lparr>s_id = 1, s_student_id = ''S001'', s_name = ''Ada''\<rparr>,
                  \<lparr>s_id = 2, s_student_id = ''S002'', s_name = ''Bob''\<rparr>],
      faces = [\<lparr>f_encoding = 4, f_student_id = 1\<rparr>, \<lparr>f_encoding = 9, f_student_id = 2\<rparr>],
      attendances = [], log = []\<rparr>"

text \<open>
  A sample image with three faces: one that matches nobody, one of the first
  student and one of the second.
\<close>

definition sample_image :: "(location \<times> real) list" where
  "sample_image = [((5, 6, 7, 8), 20), ((0, 10, 10, 0), 4), ((1, 1, 1, 1), 9)]"


text \<open>A sample attendance table for the reports, with the range of March 2024.\<close>

definition sample_report_state :: "real state" where
  "sample_report_state =
     \<lparr>students = [\<lparr>s_id = 1, s_student_id = ''S001'', s_name = ''Ada''\<rparr>,
                  \<lparr>s_id = 2, s_student_id = ''S002'', s_name = ''Bob''\<rparr>],
      faces = [\<lparr>f_encoding = 4, f_student_id = 1\<rparr>, \<lparr>f_encoding = 9, f_student_id = 2\<rparr>],
      attendances =
        [\<lparr>a_student_id = 1, a_date = Date 2024 3 1,
          a_timestamp = Datetime (Date 2024 3 1) 9 0 0 0, a_status = ''present''\<rparr>,
         \<lparr>a_student_id = 1, a_date = Date 2024 3 1,
          a_timestamp = Datetime (Date 2024 3 1) 9 0 5 0, a_status = ''present''\<rparr>,
         \<lparr>a_student_id = 2, a_date = Date 2024 3 10,
          a_timestamp = Datetime (Date 2024 3 10) 8 30 0 0, a_status = ''present''\<rparr>,
         \<lparr>a_student_id = 1, a_date = Date 2024 3 15,
          a_timestamp = Datetime (Date 2024 3 15) 9 1 0 0, a_status = ''present''\<rparr>,
         \<lparr>a_student_id = 1, a_date = Date 2024 4 2,
          a_timestamp = Datetime (Date 2024 4 2) 9 2 0 0, a_status = ''present''\<rparr>],
      log = []\<rparr>"

definition march :: report_args where
  "march = \<lparr>start_date = Some ''2024-03-01'', end_date = Some ''2024-03-31''\<rparr>"

section \<open>Properties of the matcher\<close>

lemma argmin_less: "ds \<noteq> [] \<Longrightarrow> argmin ds < length ds"
  by (induction ds rule: argmin.induct) (auto simp: Let_def)

lemma argmin_least: "x \<in> set ds \<Longrightarrow> ds ! argmin ds \<le> x"
  by (induction ds rule: argmin.induct) (auto simp: Let_def)

lemma argmin_first: "k < argmin ds \<Longrightarrow> ds ! argmin ds < ds ! k"
proof (induction ds arbitrary: k rule: argmin.induct)
  case 1
  then show ?case by simp
next
  case (2 x)
  then show ?case by simp
next
  case (3 x y ys)
  let ?j = "argmin (y # ys)"
  from "3.prems" have neq: "\<not> x \<le> (y # ys) ! ?j"
    by (auto simp: Let_def split: if_splits)
  then have am: "argmin (x # y # ys) = Suc ?j"
    by (simp add: Let_def)
  show ?case
  proof (cases k)
    case 0
    with neq am show ?thesis by simp
  next
    case (Suc k')
    with "3.prems" am have "k' < ?j" by simp
    from "3.IH" [OF this] have "(y # ys) ! ?j < (y # ys) ! k'" .
    with Suc am show ?thesis by simp
  qed
qed

lemma argmin_Min: "ds \<noteq> [] \<Longrightarrow> ds ! argmin ds = Min (set ds)"
proof (rule antisym)
  assume ne: "ds \<noteq> []"
  then have "Min (set ds) \<in> set ds" by (simp add: Min_in)
  then show "ds ! argmin ds \<le> Min (set ds)" by (rule argmin_least)
  from ne have "ds ! argmin ds \<in> set ds" by (simp add: argmin_less)
  then show "Min (set ds) \<le> ds ! argmin ds" by simp
qed


section \<open>Effects of a recognition request\<close>

lemma mark_attendance_cases:
  assumes "mark_attendance env i pk name st = (st', r)"
  shows "(st' = st \<and> (\<exists>e. r = Inl e \<and> read_error env (Suc i) = Some e))
       \<or> (st' = st \<and> r = Inr name \<and> read_error env (Suc i) = None
            \<and> rows_for pk (today env) (attendances st) \<noteq> [])
       \<or> (st' = st\<lparr>attendances := attendances st @ [new_attendance env i pk]\<rparr>
            \<and> r = Inr (name @ '' (Marked)'') \<and> read_error env (Suc i) = None
            \<and> insert_error env i = None \<and> rows_for pk (today env) (attendances st) = [])
       \<or> (\<exists>e. st' = st\<lparr>log := log st @ [''Error marking attendance: '' @ e]\<rparr>
            \<and> r = Inr name \<and> read_error env (Suc i) = None
            \<and> insert_error env i = Some e \<and> rows_for pk (today env) (attendances st) = [])"
  using assms
  by (auto simp: mark_attendance_def rows_for_def find_None_iff filter_empty_conv
      split: option.splits dest: find_Some_iff [THEN iffD1])

lemma new_attendance_sel [simp]:
  "a_student_id (new_attendance env i pk) = pk"
  "a_date (new_attendance env i pk) = today env"
  by (simp_all add: new_attendance_def)

lemma rows_for_empty_key:
  "rows_for pk d atts = [] \<longleftrightarrow> (pk, d) \<notin> set (map att_key atts)"
  by (auto simp: rows_for_def att_key_def filter_empty_conv)

lemma recognize_face_effect:
  assumes "recognize_face env ke ki kn i st face = (st', r)"
  shows "students st' = students st \<and> faces st' = faces st
     \<and> (attendances st' = attendances st
        \<or> (\<exists>idx. fst (compare_face (face_distance env) (confidence_of env) ke (snd face) (1/2)) = Some idx
              \<and> idx < length ki
              \<and> rows_for (ki ! idx) (today env) (attendances st) = []
              \<and> attendances st' = attendances st @ [new_attendance env i (ki ! idx)]))"
proof -
  obtain t r' b l live where face: "face = ((t, r', b, l), live)"
    by (cases face) auto
  obtain m c where cf: "compare_face (face_distance env) (confidence_of env) ke live (1/2) = (m, c)"
    by (cases "compare_face (face_distance env) (confidence_of env) ke live (1/2)")
  show ?thesis
  proof (cases m)
    case None
    with assms face cf show ?thesis by (simp add: recognize_face_def)
  next
    case (Some idx)
    show ?thesis
    proof (cases "idx < length kn \<and> idx < length ki")
      case False
      with assms face cf Some show ?thesis by (auto simp: recognize_face_def)
    next
      case True
      obtain st1 r1 where m: "mark_attendance env i (ki ! idx) (kn ! idx) st = (st1, r1)"
        by (cases "mark_attendance env i (ki ! idx) (kn ! idx) st")
      with assms face cf Some True have st': "st' = st1"
        by (auto simp: recognize_face_def split: sum.splits)
      from mark_attendance_cases [OF m] st' cf Some True face show ?thesis
        by auto
    qed
  qed
qed

lemma recognize_loop_effect:
  assumes "recognize_loop env ke ki kn i st fs = (st', r)"
  shows "students st' = students st \<and> faces st' = faces st
     \<and> (\<exists>new. attendances st' = attendances st @ new
           \<and> (\<forall>a\<in>set new. a_date a = today env
                 \<and> (\<exists>face\<in>set fs. \<exists>idx.
                       fst (compare_face (face_distance env) (confidence_of env) ke (snd face) (1/2)) = Some idx
                       \<and> idx < length ki \<and> a_student_id a = ki ! idx)))
     \<and> (distinct (map att_key (attendances st)) \<longrightarrow> distinct (map att_key (attendances st')))"
  using assms
proof (induction fs arbitrary: i st st' r)
  case Nil
  then show ?case by simp
next
  case (Cons face rest)
  obtain st1 r1 where f: "recognize_face env ke ki kn i st face = (st1, r1)"
    by (cases "recognize_face env ke ki kn i st face")
  note e1 = recognize_face_effect [OF f]
  have d1: "distinct (map att_key (attendances st)) \<longrightarrow> distinct (map att_key (attendances st1))"
    using e1 by (auto simp: rows_for_empty_key att_key_def)
  have n1: "\<exists>new. attendances st1 = attendances st @ new
           \<and> (\<forall>a\<in>set new. a_date a = today env
                 \<and> (\<exists>idx. fst (compare_face (face_distance env) (confidence_of env) ke (snd face) (1/2)) = Some idx
                       \<and> idx < length ki \<and> a_student_id a = ki ! idx))"
    using e1 by auto
  show ?case
  proof (cases r1)
    case (Inl e)
    with Cons.prems f have "st' = st1" by simp
    with e1 d1 n1 show ?thesis by auto
  next
    case (Inr res)
    obtain st2 r2 where l: "recognize_loop env ke ki kn (Suc i) st1 rest = (st2, r2)"
      by (cases "recognize_loop env ke ki kn (Suc i) st1 rest")
    with Cons.prems f Inr have st': "st' = st2" by (auto split: sum.splits)
    note e2 = Cons.IH [OF l]
    from n1 obtain new1 where new1: "attendances st1 = attendances st @ new1"
      "\<forall>a\<in>set new1. a_date a = today env
                 \<and> (\<exists>idx. fst (compare_face (face_distance env) (confidence_of env) ke (snd face) (1/2)) = Some idx
                       \<and> idx < length ki \<and> a_student_id a = ki ! idx)"
      by blast
    from e2 obtain new2 where new2: "attendances st2 = attendances st1 @ new2"
      "\<forall>a\<in>set new2. a_date a = today env
                 \<and> (\<exists>face\<in>set rest. \<exists>idx.
                       fst (compare_face (face_distance env) (confidence_of env) ke (snd face) (1/2)) = Some idx
                       \<and> idx < length ki \<and> a_student_id a = ki ! idx)"
      by blast
    have "attendances st' = attendances st @ (new1 @ new2)"
      using st' new1(1) new2(1) by simp
    moreover have "\<forall>a\<in>set (new1 @ new2). a_date a = today env
                 \<and> (\<exists>face\<in>set (face # rest). \<exists>idx.
                       fst (compare_face (face_distance env) (confidence_of env) ke (snd face) (1/2)) = Some idx
                       \<and> idx < length ki \<and> a_student_id a = ki ! idx)"
      using new1(2) new2(2) by auto
    ultimately have "\<exists>new. attendances st' = attendances st @ new
           \<and> (\<forall>a\<in>set new. a_date a = today env
                 \<and> (\<exists>face\<in>set (face # rest). \<exists>idx.
                       fst (compare_face (face_distance env) (confidence_of env) ke (snd face) (1/2)) = Some idx
                       \<and> idx < length ki \<and> a_student_id a = ki ! idx))"
      by blast
    with e1 e2 d1 st' show ?thesis by simp
  qed
qed

lemma known_faces_ids: "set (map (fst \<circ> snd) (known_faces st)) \<subseteq> set (map s_id (students st))"
  by (force simp: known_faces_def)

lemma recognize_try_effect:
  assumes "recognize_try env b st = (st', r)"
  shows "st' = st
     \<or> (\<exists>locs encs r'. known_faces st \<noteq> [] \<and>
           recognize_loop env (map fst (known_faces st)) (map (fst \<circ> snd) (known_faces st))
             (map (snd \<circ> snd) (known_faces st)) 0 st (zip locs encs) = (st', r'))"
  using assms
  by (auto simp: recognize_try_def Let_def split: sum.splits option.splits if_splits prod.splits)

lemma recognize_effect:
  assumes "recognize env req st = (st', resp)"
  shows "students st' = students st \<and> faces st' = faces st
     \<and> (\<exists>new. attendances st' = attendances st @ new
           \<and> (\<forall>a\<in>set new. a_date a = today env \<and> a_student_id a \<in> set (map s_id (students st))))
     \<and> (distinct (map att_key (attendances st)) \<longrightarrow> distinct (map att_key (attendances st')))"
proof (cases "image req")
  case None
  with assms show ?thesis by (simp add: recognize_def)
next
  case (Some b)
  obtain st1 r1 where t: "recognize_try env b st = (st1, r1)"
    by (cases "recognize_try env b st")
  have tabs: "students st' = students st1 \<and> faces st' = faces st1 \<and> attendances st' = attendances st1"
    using assms Some t by (auto simp: recognize_def split: sum.splits)
  let ?k = "known_faces st"
  from recognize_try_effect [OF t] show ?thesis
  proof
    assume "st1 = st"
    then show ?thesis using tabs by simp
  next
    assume "\<exists>locs encs r'. ?k \<noteq> [] \<and>
           recognize_loop env (map fst ?k) (map (fst \<circ> snd) ?k) (map (snd \<circ> snd) ?k) 0 st
             (zip locs encs) = (st1, r')"
    then obtain locs encs r' where
      l: "recognize_loop env (map fst ?k) (map (fst \<circ> snd) ?k) (map (snd \<circ> snd) ?k) 0 st
             (zip locs encs) = (st1, r')"
      by blast
    note e = recognize_loop_effect [OF l]
    from e obtain new where new: "attendances st1 = attendances st @ new"
      "\<forall>a\<in>set new. a_date a = today env
          \<and> (\<exists>idx. idx < length (map (fst \<circ> snd) ?k) \<and> a_student_id a = map (fst \<circ> snd) ?k ! idx)"
      by blast
    have "\<forall>a\<in>set new. a_date a = today env \<and> a_student_id a \<in> set (map s_id (students st))"
    proof
      fix a assume "a \<in> set new"
      with new(2) obtain idx where d: "a_date a = today env"
        and idx: "idx < length (map (fst \<circ> snd) ?k)" "a_student_id a = map (fst \<circ> snd) ?k ! idx"
        by blast
      from idx have "a_student_id a \<in> set (map (fst \<circ> snd) ?k)"
        using nth_mem by metis
      with known_faces_ids [of st] d
      show "a_date a = today env \<and> a_student_id a \<in> set (map s_id (students st))"
        by blast
    qed
    with new(1) e tabs show ?thesis by auto
  qed
qed

lemma rows_for_Cons:
  "rows_for pk d (a # atts) = (if att_key a = (pk, d) then a # rows_for pk d atts else rows_for pk d atts)"
  by (auto simp: rows_for_def att_key_def)

lemma distinct_keys_iff: "distinct (map att_key atts) \<longleftrightarrow> (\<forall>pk d. length (rows_for pk d atts) \<le> 1)"
proof (induction atts)
  case Nil
  then show ?case by (simp add: rows_for_def)
next
  case (Cons a atts)
  obtain pk0 d0 where k: "att_key a = (pk0, d0)" by (cases "att_key a")
  show ?case
  proof
    assume d: "distinct (map att_key (a # atts))"
    then have "rows_for pk0 d0 atts = []" using k by (simp add: rows_for_empty_key)
    moreover from d Cons.IH have "\<forall>pk d. length (rows_for pk d atts) \<le> 1" by simp
    ultimately show "\<forall>pk d. length (rows_for pk d (a # atts)) \<le> 1"
      using k by (auto simp: rows_for_Cons)
  next
    assume c: "\<forall>pk d. length (rows_for pk d (a # atts)) \<le> 1"
    have "\<forall>pk d. length (rows_for pk d atts) \<le> 1"
    proof (intro allI)
      fix pk d
      from c have "length (rows_for pk d (a # atts)) \<le> 1" by blast
      then show "length (rows_for pk d atts) \<le> 1" by (simp add: rows_for_Cons split: if_splits)
    qed
    with Cons.IH have da: "distinct (map att_key atts)" by simp
    from c have "length (rows_for pk0 d0 (a # atts)) \<le> 1" by blast
    with k have "rows_for pk0 d0 atts = []" by (simp add: rows_for_Cons)
    with k have "att_key a \<notin> set (map att_key atts)" by (simp add: rows_for_empty_key)
    with da show "distinct (map att_key (a # atts))" by simp
  qed
qed

lemma run_requests_distinct:
  "distinct (map att_key (attendances st)) \<Longrightarrow> distinct (map att_key (attendances (run_requests reqs st)))"
proof (induction reqs arbitrary: st)
  case Nil
  then show ?case by simp
next
  case (Cons p reqs)
  obtain env req where p: "p = (env, req)" by (cases p)
  obtain st1 resp where r: "recognize env req st = (st1, resp)" by (cases "recognize env req st")
  from recognize_effect [OF r] Cons.prems have "distinct (map att_key (attendances st1))" by blast
  from Cons.IH [OF this] p r show ?case by simp
qed

lemma mark_twice_one_row:
  assumes u: "length (rows_for pk (today env) (attendances st)) \<le> 1"
    and m1: "mark_attendance env i pk name st = (st1, r1)"
    and ok: "read_error env (Suc i) = None" "insert_error env i = None"
    and m2: "mark_attendance env' i' pk name' st1 = (st2, r2)"
    and same: "today env' = today env"
  shows "length (rows_for pk (today env) (attendances st2)) = 1"
proof -
  have one: "length (rows_for pk (today env) (attendances st1)) = 1"
    using mark_attendance_cases [OF m1] ok u
    by (auto simp: rows_for_def att_key_def le_Suc_eq)
  then have "rows_for pk (today env') (attendances st1) \<noteq> []" using same by auto
  with mark_attendance_cases [OF m2] have "attendances st2 = attendances st1"
    by auto
  with one show ?thesis by simp
qed

lemma compare_face_index:
  "compare_face distance conf ke live tol = (Some idx, c) \<Longrightarrow> idx < length ke"
  using argmin_less [of "map (\<lambda>k. distance k live) ke"]
  by (auto simp: compare_face_def Let_def split: if_splits)

lemma find_None_rows_for:
  "find (\<lambda>a. a_student_id a = pk \<and> a_date a = d) atts = None \<longleftrightarrow> rows_for pk d atts = []"
  by (auto simp: find_None_iff rows_for_def filter_empty_conv)

lemma recognize_face_returns:
  assumes "read_error env (Suc i) = None" and "length ki = length ke" and "length kn = length ke"
  shows "\<exists>st' r. recognize_face env ke ki kn i st face = (st', Inr r)"
proof -
  obtain t r' b l live where face: "face = ((t, r', b, l), live)"
    by (cases face) auto
  obtain m c where cf: "compare_face (face_distance env) (confidence_of env) ke live (1/2) = (m, c)"
    by (cases "compare_face (face_distance env) (confidence_of env) ke live (1/2)")
  show ?thesis
  proof (cases m)
    case None
    with face cf show ?thesis by (simp add: recognize_face_def)
  next
    case (Some idx)
    with cf have "idx < length ke" by (auto dest: compare_face_index)
    with assms face cf Some show ?thesis
      by (auto simp: recognize_face_def mark_attendance_def split: option.splits)
  qed
qed

lemma recognize_loop_returns:
  assumes "\<forall>n. read_error env n = None" and "length ki = length ke" and "length kn = length ke"
  shows "\<exists>st' rs. recognize_loop env ke ki kn i st fs = (st', Inr rs) \<and> length rs = length fs"
proof (induction fs arbitrary: i st)
  case Nil
  then show ?case by simp
next
  case (Cons face rest)
  from assms have "read_error env (Suc i) = None" by blast
  from recognize_face_returns [OF this assms(2,3)]
  obtain st1 r1 where f: "recognize_face env ke ki kn i st face = (st1, Inr r1)" by blast
  from Cons.IH obtain st2 rs where "recognize_loop env ke ki kn (Suc i) st1 rest = (st2, Inr rs)"
    "length rs = length rest" by blast
  with f show ?case by simp
qed

lemma recognize_loop_append:
  "recognize_loop env ke ki kn i st (pre @ post) =
     (case recognize_loop env ke ki kn i st pre of
        (st1, Inl e) \<Rightarrow> (st1, Inl e)
      | (st1, Inr rs1) \<Rightarrow>
          (case recognize_loop env ke ki kn (i + length pre) st1 post of
             (st2, Inl e) \<Rightarrow> (st2, Inl e)
           | (st2, Inr rs2) \<Rightarrow> (st2, Inr (rs1 @ rs2))))"
proof (induction pre arbitrary: i st)
  case Nil
  then show ?case by (simp split: prod.splits sum.splits)
next
  case (Cons face pre)
  show ?case
    by (simp add: Cons.IH split: prod.splits sum.splits)
qed

lemma recognize_loop_length:
  "recognize_loop env ke ki kn i st fs = (st', Inr rs) \<Longrightarrow> length rs = length fs"
proof (induction fs arbitrary: i st rs)
  case Nil
  then show ?case by simp
next
  case (Cons face rest)
  then show ?case by (auto split: prod.splits sum.splits)
qed

lemma recognize_loop_log:
  "recognize_loop env ke ki kn i st fs = (st', r) \<Longrightarrow> \<exists>l. log st' = log st @ l"
proof (induction fs arbitrary: i st st' r)
  case Nil
  then show ?case by simp
next
  case (Cons face rest)
  obtain st1 r1 where f: "recognize_face env ke ki kn i st face = (st1, r1)"
    by (cases "recognize_face env ke ki kn i st face")
  have l1: "\<exists>l. log st1 = log st @ l"
  proof -
    obtain t r' b l live where face: "face = ((t, r', b, l), live)"
      by (cases face) auto
    obtain m c where cf: "compare_face (face_distance env) (confidence_of env) ke live (1/2) = (m, c)"
      by (cases "compare_face (face_distance env) (confidence_of env) ke live (1/2)")
    show ?thesis
    proof (cases m)
      case None
      with f face cf show ?thesis by (simp add: recognize_face_def)
    next
      case (Some idx)
      show ?thesis
      proof (cases "idx < length kn \<and> idx < length ki")
        case False
        with f face cf Some show ?thesis by (auto simp: recognize_face_def)
      next
        case True
        obtain st2 r2 where m: "mark_attendance env i (ki ! idx) (kn ! idx) st = (st2, r2)"
          by (cases "mark_attendance env i (ki ! idx) (kn ! idx) st")
        with f face cf Some True have "st1 = st2"
          by (auto simp: recognize_face_def split: sum.splits)
        with mark_attendance_cases [OF m] show ?thesis by auto
      qed
    qed
  qed
  show ?case
  proof (cases r1)
    case (Inl e)
    with Cons.prems f l1 show ?thesis by simp
  next
    case (Inr res)
    obtain st2 r2 where l: "recognize_loop env ke ki kn (Suc i) st1 rest = (st2, r2)"
      by (cases "recognize_loop env ke ki kn (Suc i) st1 rest")
    with Cons.prems f Inr have "st' = st2" by (auto split: sum.splits)
    with Cons.IH [OF l] l1 show ?thesis by auto
  qed
qed

lemma recognize_face_unmatched:
  "fst (compare_face (face_distance env) (confidence_of env) ke live (1/2)) = None \<Longrightarrow>
     recognize_face env ke ki kn i st ((t, r, b, l), live)
       = (st, Inr \<lparr>r_name = ''Unknown'',
                   r_confidence = snd (compare_face (face_distance env) (confidence_of env) ke live (1/2)),
                   r_location = [t, r, b, l]\<rparr>)"
  by (cases "compare_face (face_distance env) (confidence_of env) ke live (1/2)")
    (simp add: recognize_face_def)

lemma recognize_face_insert_fails:
  assumes "compare_face (face_distance env) (confidence_of env) ke live (1/2) = (Some idx, c)"
    and "idx < length kn" and "idx < length ki"
    and "read_error env (Suc i) = None"
    and "rows_for (ki ! idx) (today env) (attendances st) = []"
    and "insert_error env i = Some e"
  shows "recognize_face env ke ki kn i st ((t, r, b, l), live)
           = (st\<lparr>log := log st @ [''Error marking attendance: '' @ e]\<rparr>,
              Inr \<lparr>r_name = kn ! idx, r_confidence = c, r_location = [t, r, b, l]\<rparr>)"
proof -
  from assms(5) have "find (\<lambda>a. a_student_id a = ki ! idx \<and> a_date a = today env) (attendances st) = None"
    by (simp add: find_None_rows_for)
  with assms show ?thesis by (simp add: recognize_face_def mark_attendance_def)
qed

lemma recognize_face_insert_succeeds:
  assumes "compare_face (face_distance env) (confidence_of env) ke live (1/2) = (Some idx, c)"
    and "idx < length kn" and "idx < length ki"
    and "read_error env (Suc i) = None"
    and "rows_for (ki ! idx) (today env) (attendances st) = []"
    and "insert_error env i = None"
  shows "recognize_face env ke ki kn i st ((t, r, b, l), live)
           = (st\<lparr>attendances := attendances st @ [new_attendance env i (ki ! idx)]\<rparr>,
              Inr \<lparr>r_name = kn ! idx @ '' (Marked)'', r_confidence = c, r_location = [t, r, b, l]\<rparr>)"
proof -
  from assms(5) have "find (\<lambda>a. a_student_id a = ki ! idx \<and> a_date a = today env) (attendances st) = None"
    by (simp add: find_None_rows_for)
  with assms show ?thesis by (simp add: recognize_face_def mark_attendance_def)
qed

lemma recognize_loop_snoc:
  assumes "recognize_loop env ke ki kn i st pre = (st1, Inr rs1)"
    and "recognize_face env ke ki kn (i + length pre) st1 face = (st2, Inr res)"
  shows "recognize_loop env ke ki kn i st (pre @ [face]) = (st2, Inr (rs1 @ [res]))"
  using assms by (simp add: recognize_loop_append)

lemma recognize_loop_names:
  assumes "recognize_loop env ke ki kn i st fs = (st', Inr rs)" and "k < length fs"
  shows "r_location (rs ! k) = (case fst (fs ! k) of (t, r, b, l) \<Rightarrow> [t, r, b, l])
     \<and> r_confidence (rs ! k) = snd (compare_face (face_distance env) (confidence_of env) ke (snd (fs ! k)) (1/2))
     \<and> (case fst (compare_face (face_distance env) (confidence_of env) ke (snd (fs ! k)) (1/2)) of
          None \<Rightarrow> r_name (rs ! k) = ''Unknown''
        | Some idx \<Rightarrow> r_name (rs ! k) = kn ! idx \<or> r_name (rs ! k) = kn ! idx @ '' (Marked)'')"
  using assms
proof (induction fs arbitrary: i st rs k)
  case Nil
  then show ?case by simp
next
  case (Cons face rest)
  from Cons.prems(1) obtain st1 res rs' where
    f: "recognize_face env ke ki kn i st face = (st1, Inr res)"
    and l: "recognize_loop env ke ki kn (Suc i) st1 rest = (st', Inr rs')"
    and rs: "rs = res # rs'"
    by (auto split: prod.splits sum.splits)
  show ?case
  proof (cases k)
    case 0
    obtain t r' b l' live where face: "face = ((t, r', b, l'), live)"
      by (cases face) auto
    obtain m c where cf: "compare_face (face_distance env) (confidence_of env) ke live (1/2) = (m, c)"
      by (cases "compare_face (face_distance env) (confidence_of env) ke live (1/2)")
    show ?thesis
    proof (cases m)
      case None
      with f face cf rs 0 show ?thesis by (auto simp: recognize_face_def)
    next
      case (Some idx)
      show ?thesis
      proof (cases "idx < length kn \<and> idx < length ki")
        case False
        with f face cf Some show ?thesis by (auto simp: recognize_face_def)
      next
        case True
        obtain st2 r2 where m: "mark_attendance env i (ki ! idx) (kn ! idx) st = (st2, r2)"
          by (cases "mark_attendance env i (ki ! idx) (kn ! idx) st")
        from mark_attendance_cases [OF m] f face cf Some True m rs 0 show ?thesis
          by (auto simp: recognize_face_def split: sum.splits)
      qed
    qed
  next
    case (Suc k')
    with Cons.prems(2) have "k' < length rest" by simp
    from Cons.IH [OF l this] rs Suc show ?thesis by (auto split: option.splits)
  qed
qed

lemma recognize_runs_loop:
  assumes "image req = Some upload"
    and "imdecode env upload = Inr (Some img)"
    and "face_locations env (cvtColor env img) = Inr locations"
    and "face_encodings env (cvtColor env img) locations = Inr live_encodings"
    and "read_error env 0 = None"
    and "known_faces st = known" and "known \<noteq> []"
  shows "recognize env req st =
     (case recognize_loop env (map fst known) (map (fst \<circ> snd) known) (map (snd \<circ> snd) known) 0 st
             (zip locations live_encodings) of
        (st', Inl e) \<Rightarrow> (st'\<lparr>log := log st' @ [''Recognition error: '' @ e]\<rparr>, (500, Error e))
      | (st', Inr rs) \<Rightarrow> (st', (200, Results rs)))"
  using assms by (simp add: recognize_def recognize_try_def split: prod.splits sum.splits)

lemma recognize_results_loop:
  assumes "image req = Some upload"
    and "imdecode env upload = Inr (Some img)"
    and "face_locations env (cvtColor env img) = Inr locations"
    and "face_encodings env (cvtColor env img) locations = Inr live_encodings"
    and "recognize env req st = (st', (200, Results rs))"
  shows "recognize_loop env (map fst (known_faces st)) (map (fst \<circ> snd) (known_faces st))
           (map (snd \<circ> snd) (known_faces st)) 0 st (zip locations live_encodings) = (st', Inr rs)"
  using assms
  by (auto simp: recognize_def recognize_try_def Let_def split: prod.splits sum.splits option.splits if_splits)

lemma recognize_cases:
  assumes "recognize env req st = (st', resp)"
  shows "(students st' = students st \<and> faces st' = faces st \<and> attendances st' = attendances st)
     \<or> (\<exists>upload img locations live_encodings st1 r.
           image req = Some upload \<and> imdecode env upload = Inr (Some img)
           \<and> face_locations env (cvtColor env img) = Inr locations
           \<and> face_encodings env (cvtColor env img) locations = Inr live_encodings
           \<and> recognize_loop env (map fst (known_faces st)) (map (fst \<circ> snd) (known_faces st))
                (map (snd \<circ> snd) (known_faces st)) 0 st (zip locations live_encodings) = (st1, r)
           \<and> students st' = students st1 \<and> faces st' = faces st1 \<and> attendances st' = attendances st1)"
  using assms
  by (auto simp: recognize_def recognize_try_def Let_def split: prod.splits sum.splits option.splits if_splits)

lemma recognize_raise_points:
  "(imdecode env b = Inl e \<longrightarrow> recognize_try env b st = (st, Inl e))
   \<and> (imdecode env b = Inr (Some img) \<and> face_locations env (cvtColor env img) = Inl e
        \<longrightarrow> recognize_try env b st = (st, Inl e))
   \<and> (imdecode env b = Inr (Some img)
        \<and> face_locations env (cvtColor env img) = Inr locs
        \<and> face_encodings env (cvtColor env img) locs = Inl e
        \<longrightarrow> recognize_try env b st = (st, Inl e))
   \<and> (imdecode env b = Inr (Some img)
        \<and> face_locations env (cvtColor env img) = Inr locs
        \<and> face_encodings env (cvtColor env img) locs = Inr encs
        \<and> read_error env 0 = Some e
        \<longrightarrow> recognize_try env b st = (st, Inl e))"
  by (simp add: recognize_try_def)

lemma report_raise_points:
  "(parse_date env (start_date args) = Inl e \<longrightarrow>
        get_reports_try env args st = Inl e \<and> export_try env args st = Inl e)
   \<and> (parse_date env (start_date args) = Inr d \<and> parse_date env (end_date args) = Inl e \<longrightarrow>
        get_reports_try env args st = Inl e \<and> export_try env args st = Inl e)
   \<and> (parse_date env (start_date args) = Inr d \<and> parse_date env (end_date args) = Inr d'
        \<and> read_error env 0 = Some e \<longrightarrow>
        get_reports_try env args st = Inl e \<and> export_try env args st = Inl e)"
  by (simp add: get_reports_try_def export_try_def)

lemmas eval_defs = recognize_def recognize_try_def recognize_face_def mark_attendance_def
  compare_face_def known_faces_def sample_env_def sample_state_def no_error_def
  line_distance_def line_confidence_def new_attendance_def Let_def rows_for_def
  sample_image_def locked_def

section \<open>Properties of the reports\<close>

lemma digit_eq: "digit a = digit b \<longleftrightarrow> a mod 10 = b mod 10"
proof -
  have d: "distinct ''0123456789''" by simp
  have "a mod 10 < length ''0123456789''" "b mod 10 < length ''0123456789''" by simp_all
  from nth_eq_iff_index_eq [OF d this] show ?thesis by (simp add: digit_def)
qed

lemma div_mod_eq: "(n::nat) div k = m div k \<Longrightarrow> n mod k = m mod k \<Longrightarrow> n = m"
proof -
  assume a: "n div k = m div k" and b: "n mod k = m mod k"
  have "k * (n div k) + n mod k = k * (m div k) + m mod k" using a b by simp
  then show "n = m" by (simp only: mult_div_mod_eq)
qed

lemma pad2_inj:
  assumes "n < 100" and "m < 100" and "pad2 n = pad2 m"
  shows "n = m"
proof -
  from assms(3) have a: "(n div 10) mod 10 = (m div 10) mod 10" and b: "n mod 10 = m mod 10"
    by (simp_all add: pad2_def digit_eq)
  from assms(1,2) have "n div 10 < 10" "m div 10 < 10" by simp_all
  with a have "n div 10 = m div 10" by simp
  with b show ?thesis by (blast intro: div_mod_eq)
qed

lemma pad4_pad2: "pad4 n = pad2 (n div 100) @ pad2 (n mod 100)"
proof -
  have a: "n div 1000 = n div 100 div 10" by (simp add: div_mult2_eq)
  have "n mod 100 div 10 = (n div 10) mod 10"
    using mod_mult2_eq [of n 10 10] by simp
  then have b: "(n div 10) mod 10 = (n mod 100 div 10) mod 10" by simp
  have c: "n mod 10 = n mod 100 mod 10" by (simp add: mod_mod_cancel)
  have "n mod 100 < 10 * 10" by simp
  then have d: "n mod 100 div 10 < 10" by (rule less_mult_imp_div_less)
  from a b c d show ?thesis by (simp add: pad4_def pad2_def digit_eq)
qed

lemma pad4_inj:
  assumes "n < 10000" and "m < 10000" and "pad4 n = pad4 m"
  shows "n = m"
proof -
  from assms(3) have "pad2 (n div 100) = pad2 (m div 100)" "pad2 (n mod 100) = pad2 (m mod 100)"
    by (simp_all add: pad4_pad2 pad2_def)
  moreover from assms(1,2) have "n div 100 < 100" "m div 100 < 100" by simp_all
  moreover have "n mod 100 < 100" "m mod 100 < 100" by simp_all
  ultimately have "n div 100 = m div 100" "n mod 100 = m mod 100"
    by (auto intro: pad2_inj)
  then show ?thesis by (rule div_mod_eq)
qed

lemma isoformat_inj:
  assumes "valid_date a" and "valid_date b" and "isoformat a = isoformat b"
  shows "a = b"
proof -
  from assms(3) have "pad4 (year a) = pad4 (year b)" "pad2 (month a) = pad2 (month b)"
    "pad2 (day a) = pad2 (day b)"
    by (simp_all add: isoformat_def pad4_def pad2_def)
  moreover from assms(1,2) have "year a < 10000" "year b < 10000" "month a < 100" "month b < 100"
    "day a < 100" "day b < 100"
    by (simp_all add: valid_date_def)
  ultimately have "year a = year b" "month a = month b" "day a = day b"
    by (blast intro: pad4_inj pad2_inj)+
  then show ?thesis by (simp add: date.expand)
qed

lemma report_loop_rows:
  assumes "report_loop env sd ed st i ss = Inr rows"
  shows "length rows = length ss
     \<and> (\<forall>k<length ss. rr_id (rows ! k) = s_id (ss ! k)
           \<and> rr_student_id (rows ! k) = s_student_id (ss ! k)
           \<and> rr_name (rows ! k) = s_name (ss ! k)
           \<and> present_dates (rows ! k) =
               remdups (map (\<lambda>r. isoformat (a_date r))
                 (filter (\<lambda>a. a_student_id a = s_id (ss ! k) \<and> in_range sd ed (a_date a)) (attendances st)))
           \<and> present_count (rows ! k) = length (present_dates (rows ! k)))"
  using assms
proof (induction ss arbitrary: i rows)
  case Nil
  then show ?case by simp
next
  case (Cons s rest)
  from Cons.prems obtain rows' where
    l: "report_loop env sd ed st (Suc i) rest = Inr rows'"
    and rows: "rows = \<lparr>rr_id = s_id s, rr_student_id = s_student_id s, rr_name = s_name s,
        present_count = length (remdups (map (\<lambda>r. isoformat (a_date r))
                 (filter (\<lambda>a. a_student_id a = s_id s \<and> in_range sd ed (a_date a)) (attendances st)))),
        present_dates = remdups (map (\<lambda>r. isoformat (a_date r))
                 (filter (\<lambda>a. a_student_id a = s_id s \<and> in_range sd ed (a_date a)) (attendances st)))\<rparr> # rows'"
    by (auto simp: Let_def split: option.splits sum.splits)
  note ih = Cons.IH [OF l]
  show ?case
  proof (rule conjI, goal_cases)
    case 1
    from ih rows show "length rows = length (s # rest)" by simp
  next
    case 2
    show ?case
    proof (intro allI impI)
    fix k assume k: "k < length (s # rest)"
    show "rr_id (rows ! k) = s_id ((s # rest) ! k)
           \<and> rr_student_id (rows ! k) = s_student_id ((s # rest) ! k)
           \<and> rr_name (rows ! k) = s_name ((s # rest) ! k)
           \<and> present_dates (rows ! k) =
               remdups (map (\<lambda>r. isoformat (a_date r))
                 (filter (\<lambda>a. a_student_id a = s_id ((s # rest) ! k) \<and> in_range sd ed (a_date a)) (attendances st)))
           \<and> present_count (rows ! k) = length (present_dates (rows ! k))"
    proof (cases k)
      case 0
      with rows show ?thesis by simp
    next
      case (Suc k')
      with k have "k' < length rest" by simp
      with ih Suc rows show ?thesis by simp
    qed
    qed
  qed
qed

lemma report_loop_returns:
  "\<forall>n. read_error env n = None \<Longrightarrow> \<exists>rows. report_loop env sd ed st i ss = Inr rows"
proof (induction ss arbitrary: i)
  case Nil
  then show ?case by simp
next
  case (Cons s rest)
  from Cons.IH [OF Cons.prems] obtain rows where "report_loop env sd ed st (Suc i) rest = Inr rows"
    by blast
  with Cons.prems show ?case by (simp add: Let_def)
qed

lemma count_distinct_dates:
  assumes "\<forall>a\<in>set atts. valid_date (a_date a)"
  shows "length (remdups (map (\<lambda>r. isoformat (a_date r))
            (filter (\<lambda>a. a_student_id a = pk \<and> in_range sd ed (a_date a)) atts)))
       = card {d. in_range sd ed d \<and> (\<exists>a\<in>set atts. a_student_id a = pk \<and> a_date a = d)}"
proof -
  let ?D = "{d. in_range sd ed d \<and> (\<exists>a\<in>set atts. a_student_id a = pk \<and> a_date a = d)}"
  have s: "set (map (\<lambda>r. isoformat (a_date r))
            (filter (\<lambda>a. a_student_id a = pk \<and> in_range sd ed (a_date a)) atts)) = isoformat ` ?D"
    by auto
  have "\<forall>d\<in>?D. valid_date d" using assms by auto
  then have "inj_on isoformat ?D" by (auto intro!: inj_onI isoformat_inj)
  then have "card (isoformat ` ?D) = card ?D" by (rule card_image)
  with s show ?thesis by (simp add: length_remdups_card_conv)
qed

lemma filter_key_none:
  "k \<notin> set (map f xs) \<Longrightarrow> filter (\<lambda>x. f x = k) xs = []"
  by (auto simp: filter_empty_conv)

lemma filter_key_one:
  "distinct (map f xs) \<Longrightarrow> k \<in> set (map f xs) \<Longrightarrow> length (filter (\<lambda>x. f x = k) xs) = 1"
proof (induction xs)
  case Nil
  then show ?case by simp
next
  case (Cons x xs)
  show ?case
  proof (cases "f x = k")
    case True
    from Cons.prems(1) have "f x \<notin> set (map f xs)" by simp
    with True have "k \<notin> set (map f xs)" by simp
    then have "filter (\<lambda>x. f x = k) xs = []" by (rule filter_key_none)
    with True show ?thesis by simp
  next
    case False
    with Cons show ?thesis by auto
  qed
qed

lemma join_count:
  assumes pk: "distinct (map s_id studs)"
  shows "length (filter (\<lambda>(a, s). P a)
           (concat (map (\<lambda>a. map (\<lambda>s. (a, s)) (filter (\<lambda>s. s_id s = a_student_id a) studs)) atts)))
       = length (filter (\<lambda>a. P a \<and> a_student_id a \<in> set (map s_id studs)) atts)"
proof (induction atts)
  case Nil
  then show ?case by simp
next
  case (Cons a atts)
  have f: "filter (\<lambda>(a, s). P a) (map (\<lambda>s. (a, s)) (filter (\<lambda>s. s_id s = a_student_id a) studs))
      = (if P a then map (\<lambda>s. (a, s)) (filter (\<lambda>s. s_id s = a_student_id a) studs) else [])"
    by (simp add: filter_map comp_def)
  show ?case
  proof (cases "a_student_id a \<in> set (map s_id studs)")
    case True
    from filter_key_one [OF pk True] Cons.IH f True show ?thesis by simp
  next
    case False
    from filter_key_none [OF False] Cons.IH f False show ?thesis by simp
  qed
qed

lemma recognize_keeps_keys:
  assumes "recognize env req st = (st', resp)"
  shows "(primary_key_ok st \<longrightarrow> primary_key_ok st') \<and> (foreign_key_ok st \<longrightarrow> foreign_key_ok st')"
  using recognize_effect [OF assms]
  by (auto simp: primary_key_ok_def foreign_key_ok_def list_all_iff)

lemmas report_eval_defs = get_reports_data_def get_reports_try_def export_csv_def export_try_def
  parse_date_def sample_env_def sample_strptime_def sample_report_state_def march_def no_error_def
  in_range_def date_le_def date_key_def isoformat_def pad4_def pad2_def digit_def Let_def

section \<open>Claims about the matcher\<close>

text \<open>
  Claim C2. For a non-empty list of known encodings and a live encoding, let m be
  the least of the distances from the known encodings to the live one. With the
  tolerance 0.5 that \<open>recognize\<close> passes, the matcher returns an index exactly
  when m is below 0.5, and the index it returns is the first position whose
  distance is m. In particular there is no match when every known encoding is at
  a distance above 0.5.
\<close>

theorem compare_face_accepts_minimum_below_tolerance:
  fixes distance :: "'e \<Rightarrow> 'e \<Rightarrow> real"
  assumes ne: "known \<noteq> []"
  shows "let m = Min ((\<lambda>k. distance k live) ` set known);
             r = fst (compare_face distance conf known live (1/2))
         in (m < 1/2 \<longrightarrow> (\<exists>i<length known. r = Some i \<and> distance (known ! i) live = m
                 \<and> (\<forall>k<i. m < distance (known ! k) live)))
          \<and> (\<not> m < 1/2 \<longrightarrow> r = None)
          \<and> ((\<forall>k\<in>set known. 1/2 < distance k live) \<longrightarrow> r = None)"
proof -
  let ?ds = "map (\<lambda>k. distance k live) known"
  let ?b = "argmin ?ds"
  from ne have dne: "?ds \<noteq> []" by simp
  have b: "?b < length known" using argmin_less [OF dne] by simp
  have m: "?ds ! ?b = Min ((\<lambda>k. distance k live) ` set known)"
    using argmin_Min [OF dne] by simp
  have dm: "distance (known ! ?b) live = Min ((\<lambda>k. distance k live) ` set known)"
    using m b by simp
  have first: "\<forall>k<?b. Min ((\<lambda>k. distance k live) ` set known) < distance (known ! k) live"
  proof (intro allI impI)
    fix k assume k: "k < ?b"
    from argmin_first [OF k] have "?ds ! ?b < ?ds ! k" .
    with k b m show "Min ((\<lambda>k. distance k live) ` set known) < distance (known ! k) live"
      by simp
  qed
  have above: "(\<forall>k\<in>set known. 1/2 < distance k live) \<Longrightarrow> \<not> ?ds ! ?b < 1/2"
  proof -
    assume a: "\<forall>k\<in>set known. 1/2 < distance k live"
    from b have "known ! ?b \<in> set known" by simp
    with a have "1/2 < distance (known ! ?b) live" by blast
    with b show ?thesis by simp
  qed
  show ?thesis
    unfolding Let_def compare_face_def using ne b dm first above m
    by (auto simp: Let_def)
qed

theorem compare_face_accepts_minimum_below_tolerance_witness:
  "[3, 5/4 :: real] \<noteq> []
   \<and> Min ((\<lambda>k. line_distance k 1) ` set [3, 5/4]) = 1/4
   \<and> fst (compare_face line_distance line_confidence [3, 5/4] 1 (1/2)) = Some 1
   \<and> 1/2 < line_distance 3 10 \<and> 1/2 < line_distance (5/4) 10
   \<and> \<not> Min ((\<lambda>k. line_distance k 10) ` set [3, 5/4]) < 1/2
   \<and> fst (compare_face line_distance line_confidence [3, 5/4] 10 (1/2)) = None"
  using compare_face_accepts_minimum_below_tolerance
      [of "[3, 5/4 :: real]" line_distance 1 line_confidence]
    compare_face_accepts_minimum_below_tolerance
      [of "[3, 5/4 :: real]" line_distance 10 line_confidence]
  by (simp add: Let_def line_distance_def compare_face_def)

text \<open>
  Claim C3, as stated, fails when two entries of the list hold the same encoding:
  the matcher returns one index, the first of them. With the encodings [4, 4]
  owned by the students 10 and 20, the second student's own encoding is matched
  at index 0, which is the first student's entry.
\<close>

theorem compare_face_self_counterexample:
  "fst (compare_face line_distance line_confidence [4, 4] ([4, 4] ! 1) (1/2)) = Some 0
   \<and> [10, 20 :: int] ! 0 \<noteq> [10, 20] ! 1"
  by (simp add: compare_face_def line_distance_def Let_def)

text \<open>
  Claim C3, amended. Let the distance of an encoding to itself be zero and no
  distance to it be negative. For the encoding stored at index i of the list of
  known encodings, the matcher returns the first index j whose encoding is at
  distance zero from it; j is at most i, and j is i itself whenever no earlier
  entry of the list is at distance zero from that encoding.
\<close>

theorem compare_face_self_first_zero:
  fixes distance :: "'e \<Rightarrow> 'e \<Rightarrow> real"
  assumes self: "distance (known ! i) (known ! i) = 0"
    and nonneg: "\<forall>k\<in>set known. 0 \<le> distance k (known ! i)"
    and i: "i < length known"
  shows "\<exists>j\<le>i. fst (compare_face distance conf known (known ! i) (1/2)) = Some j
           \<and> distance (known ! j) (known ! i) = 0
           \<and> (\<forall>k<j. distance (known ! k) (known ! i) \<noteq> 0)
           \<and> ((\<forall>k<i. distance (known ! k) (known ! i) \<noteq> 0) \<longrightarrow> j = i)"
proof -
  let ?e = "known ! i"
  let ?ds = "map (\<lambda>k. distance k ?e) known"
  let ?b = "argmin ?ds"
  from i have ne: "known \<noteq> []" by auto
  then have dne: "?ds \<noteq> []" by simp
  have b: "?b < length known" using argmin_less [OF dne] by simp
  from i have "i < length ?ds" by simp
  then have "?ds ! i \<in> set ?ds" by (rule nth_mem)
  from argmin_least [OF this] i self have le0: "?ds ! ?b \<le> 0" by simp
  from b have "known ! ?b \<in> set known" by simp
  with nonneg have "0 \<le> distance (known ! ?b) ?e" by blast
  with le0 b have z: "distance (known ! ?b) ?e = 0" by simp
  have bi: "?b \<le> i"
  proof (rule ccontr)
    assume "\<not> ?b \<le> i"
    then have "i < ?b" by simp
    from argmin_first [OF this] have "?ds ! ?b < ?ds ! i" .
    with b i z self show False by simp
  qed
  have first: "\<forall>k<?b. distance (known ! k) ?e \<noteq> 0"
  proof (intro allI impI)
    fix k assume k: "k < ?b"
    from argmin_first [OF k] have "?ds ! ?b < ?ds ! k" .
    with k b z show "distance (known ! k) ?e \<noteq> 0" by simp
  qed
  have last: "(\<forall>k<i. distance (known ! k) ?e \<noteq> 0) \<longrightarrow> ?b = i"
  proof
    assume a: "\<forall>k<i. distance (known ! k) ?e \<noteq> 0"
    show "?b = i"
    proof (rule ccontr)
      assume "?b \<noteq> i"
      with bi have "?b < i" by simp
      with a z show False by blast
    qed
  qed
  have r: "fst (compare_face distance conf known ?e (1/2)) = Some ?b"
    using ne b z by (simp add: compare_face_def Let_def)
  from bi r z first last show ?thesis by blast
qed

theorem compare_face_self_first_zero_witness:
  "line_distance ([3, 4, 4] ! 2) ([3, 4, 4] ! 2) = 0
   \<and> 0 \<le> line_distance 3 ([3, 4, 4] ! 2) \<and> 0 \<le> line_distance 4 ([3, 4, 4] ! 2)
   \<and> (2::nat) < length [3, 4, 4 :: real]
   \<and> fst (compare_face line_distance line_confidence [3, 4, 4] ([3, 4, 4] ! 2) (1/2)) = Some 1
   \<and> line_distance ([3, 4, 4] ! 1) ([3, 4, 4] ! 2) = 0
   \<and> line_distance ([3, 4, 4] ! 0) ([3, 4, 4] ! 2) \<noteq> 0
   \<and> line_distance ([3, 4, 4] ! 0) ([3, 4, 4] ! 1) \<noteq> 0
   \<and> fst (compare_face line_distance line_confidence [3, 4, 4] ([3, 4, 4] ! 1) (1/2)) = Some 1"
proof -
  have h1: "line_distance ([3, 4, 4] ! 2) ([3, 4, 4] ! 2) = 0"
    and g1: "line_distance ([3, 4, 4] ! 1) ([3, 4, 4] ! 1) = 0"
    by (simp_all add: line_distance_def)
  have h2: "\<forall>k\<in>set [3, 4, 4]. 0 \<le> line_distance k ([3, 4, 4] ! 2)"
    and g2: "\<forall>k\<in>set [3, 4, 4]. 0 \<le> line_distance k ([3, 4, 4] ! 1)"
    by (simp_all add: line_distance_def)
  have h3: "(2::nat) < length [3, 4, 4 :: real]" and g3: "(1::nat) < length [3, 4, 4 :: real]"
    by simp_all
  show ?thesis
    using compare_face_self_first_zero
      [where distance = line_distance and known = "[3, 4, 4]" and i = 2 and conf = line_confidence,
        OF h1 h2 h3]
      compare_face_self_first_zero
      [where distance = line_distance and known = "[3, 4, 4]" and i = 1 and conf = line_confidence,
        OF g1 g2 g3]
    by (simp add: compare_face_def line_distance_def Let_def)
qed

section \<open>Claims about the recognition endpoint\<close>

text \<open>
  Claim C1. Let the attendance table hold at most one row for every student and
  date. After any sequence of recognition requests it still holds at most one
  row for every student and date. And when attendance is marked for a student
  with the insert succeeding, and marked again for the same student on the same
  date, the table holds exactly one row for that student and date.
\<close>

theorem attendance_unique_per_student_and_date:
  assumes "\<forall>pk d. length (rows_for pk d (attendances st)) \<le> 1"
  shows "(\<forall>pk d. length (rows_for pk d (attendances (run_requests reqs st))) \<le> 1)
     \<and> (\<forall>st1 r1 st2 r2.
           mark_attendance env i student_pk name st = (st1, r1)
           \<and> read_error env (Suc i) = None \<and> insert_error env i = None
           \<and> mark_attendance env' i' student_pk name' st1 = (st2, r2)
           \<and> today env' = today env
           \<longrightarrow> length (rows_for student_pk (today env) (attendances st2)) = 1)"
proof
  from assms have "distinct (map att_key (attendances st))" by (simp add: distinct_keys_iff)
  then have "distinct (map att_key (attendances (run_requests reqs st)))"
    by (rule run_requests_distinct)
  then show "\<forall>pk d. length (rows_for pk d (attendances (run_requests reqs st))) \<le> 1"
    by (simp add: distinct_keys_iff)
next
  from assms have u: "length (rows_for student_pk (today env) (attendances st)) \<le> 1" by blast
  show "\<forall>st1 r1 st2 r2.
           mark_attendance env i student_pk name st = (st1, r1)
           \<and> read_error env (Suc i) = None \<and> insert_error env i = None
           \<and> mark_attendance env' i' student_pk name' st1 = (st2, r2)
           \<and> today env' = today env
           \<longrightarrow> length (rows_for student_pk (today env) (attendances st2)) = 1"
    using mark_twice_one_row [OF u] by blast
qed

theorem attendance_unique_per_student_and_date_witness:
  "attendances sample_state = []
   \<and> length (rows_for 1 (Date 2024 3 1) (attendances (run_requests
        [(sample_env (Inr (Some [((0, 10, 10, 0), 4)])) no_error no_error, \<lparr>image = Some [1]\<rparr>),
         (sample_env (Inr (Some [((2, 12, 12, 2), 4)])) no_error no_error, \<lparr>image = Some [2]\<rparr>)]
        sample_state))) = 1
   \<and> mark_attendance (sample_env (Inr None) no_error no_error) 0 1 ''Ada'' sample_state
      = (sample_state\<lparr>attendances := [new_attendance (sample_env (Inr None) no_error no_error) 0 1]\<rparr>,
         Inr ''Ada (Marked)'')
   \<and> read_error (sample_env (Inr None) no_error no_error) (Suc 0) = None
   \<and> insert_error (sample_env (Inr None) no_error no_error) 0 = None
   \<and> mark_attendance (sample_env (Inr None) no_error locked) 3 1 ''Ada''
        (sample_state\<lparr>attendances := [new_attendance (sample_env (Inr None) no_error no_error) 0 1]\<rparr>)
      = (sample_state\<lparr>attendances := [new_attendance (sample_env (Inr None) no_error no_error) 0 1]\<rparr>,
         Inr ''Ada'')
   \<and> today (sample_env (Inr None) no_error locked) = today (sample_env (Inr None) no_error no_error)
   \<and> length (rows_for 1 (today (sample_env (Inr None) no_error no_error))
        (attendances (sample_state\<lparr>attendances :=
            [new_attendance (sample_env (Inr None) no_error no_error) 0 1]\<rparr>))) = 1"
proof -
  let ?E = "sample_env (Inr None) no_error no_error :: ((location \<times> real) list, real) env"
  let ?L = "sample_env (Inr None) no_error locked :: ((location \<times> real) list, real) env"
  let ?S1 = "sample_state\<lparr>attendances := [new_attendance ?E 0 1]\<rparr>"
  have a: "attendances sample_state = []" by (simp add: sample_state_def)
  then have h: "\<forall>pk d. length (rows_for pk d (attendances sample_state)) \<le> 1"
    by (simp add: rows_for_def)
  note t = attendance_unique_per_student_and_date [OF h]
  have le: "length (rows_for 1 (Date 2024 3 1) (attendances (run_requests
        [(sample_env (Inr (Some [((0, 10, 10, 0), 4)])) no_error no_error, \<lparr>image = Some [1]\<rparr>),
         (sample_env (Inr (Some [((2, 12, 12, 2), 4)])) no_error no_error, \<lparr>image = Some [2]\<rparr>)]
        sample_state))) \<le> 1"
    using t by blast
  have "rows_for 1 (Date 2024 3 1) (attendances (run_requests
        [(sample_env (Inr (Some [((0, 10, 10, 0), 4)])) no_error no_error, \<lparr>image = Some [1]\<rparr>),
         (sample_env (Inr (Some [((2, 12, 12, 2), 4)])) no_error no_error, \<lparr>image = Some [2]\<rparr>)]
        sample_state)) \<noteq> []"
    by (simp add: eval_defs)
  with le have c1: "length (rows_for 1 (Date 2024 3 1) (attendances (run_requests
        [(sample_env (Inr (Some [((0, 10, 10, 0), 4)])) no_error no_error, \<lparr>image = Some [1]\<rparr>),
         (sample_env (Inr (Some [((2, 12, 12, 2), 4)])) no_error no_error, \<lparr>image = Some [2]\<rparr>)]
        sample_state))) = 1"
    by (simp add: le_Suc_eq)
  have m1: "mark_attendance ?E 0 1 ''Ada'' sample_state = (?S1, Inr ''Ada (Marked)'')"
    by (simp add: mark_attendance_def sample_env_def sample_state_def no_error_def)
  have r: "read_error ?E (Suc 0) = None" and i: "insert_error ?E 0 = None"
    by (simp_all add: sample_env_def no_error_def)
  have m2: "mark_attendance ?L 3 1 ''Ada'' ?S1 = (?S1, Inr ''Ada'')"
    by (simp add: mark_attendance_def sample_env_def sample_state_def no_error_def new_attendance_def)
  have d: "today ?L = today ?E" by (simp add: sample_env_def)
  from t [where env = ?E and i = 0 and student_pk = 1 and name = "''Ada''" and env' = ?L and i' = 3
      and name' = "''Ada''"] m1 r i m2 d
  have c2: "length (rows_for 1 (today ?E) (attendances ?S1)) = 1" by blast
  from a c1 m1 r i m2 d c2 show ?thesis by blast
qed

text \<open>
  Claim C6. Take a request whose image decodes and whose detection and database
  reads do not raise, and a detected face matched to a student who has no
  attendance row for today when the loop reaches it. If the insert for that face
  raises, the loop leaves the tables as they were, appends the error to the log
  and reports the student's name as it is; the endpoint still answers with
  status 200 and one result for every face, the result for this face carries the
  plain name, and the log of the final state holds the error. If the insert
  succeeds, the row is appended, and the result for this face in the response
  carries the name with the suffix (Marked).
\<close>

theorem insert_failure_caught:
  assumes img: "image req = Some upload"
    and dec: "imdecode env upload = Inr (Some img)"
    and locs: "face_locations env (cvtColor env img) = Inr locations"
    and encs: "face_encodings env (cvtColor env img) locations = Inr live_encodings"
    and reads: "\<forall>n. read_error env n = None"
    and known: "known_faces st = known" "known \<noteq> []"
    and faces: "zip locations live_encodings = pre @ ((t, r, b, l), live) # post"
    and before: "recognize_loop env (map fst known) (map (fst \<circ> snd) known) (map (snd \<circ> snd) known)
                   0 st pre = (st1, Inr rs1)"
    and match: "compare_face (face_distance env) (confidence_of env) (map fst known) live (1/2)
                   = (Some idx, c)"
    and unmarked: "rows_for (fst (snd (known ! idx))) (today env) (attendances st1) = []"
  shows "(insert_error env (length pre) = Some e \<longrightarrow>
            recognize_loop env (map fst known) (map (fst \<circ> snd) known) (map (snd \<circ> snd) known)
                0 st (pre @ [((t, r, b, l), live)])
              = (st1\<lparr>log := log st1 @ [''Error marking attendance: '' @ e]\<rparr>,
                 Inr (rs1 @ [\<lparr>r_name = snd (snd (known ! idx)), r_confidence = c,
                              r_location = [t, r, b, l]\<rparr>]))
            \<and> (\<exists>st' rs rest.
                  recognize env req st = (st', (200, Results rs))
                  \<and> length rs = length (zip locations live_encodings)
                  \<and> rs ! length pre = \<lparr>r_name = snd (snd (known ! idx)), r_confidence = c,
                                         r_location = [t, r, b, l]\<rparr>
                  \<and> log st' = log st1 @ [''Error marking attendance: '' @ e] @ rest))
       \<and> (insert_error env (length pre) = None \<longrightarrow>
            recognize_loop env (map fst known) (map (fst \<circ> snd) known) (map (snd \<circ> snd) known)
                0 st (pre @ [((t, r, b, l), live)])
              = (st1\<lparr>attendances := attendances st1
                        @ [new_attendance env (length pre) (fst (snd (known ! idx)))]\<rparr>,
                 Inr (rs1 @ [\<lparr>r_name = snd (snd (known ! idx)) @ '' (Marked)'', r_confidence = c,
                              r_location = [t, r, b, l]\<rparr>]))
            \<and> (\<exists>st' rs.
                  recognize env req st = (st', (200, Results rs))
                  \<and> length rs = length (zip locations live_encodings)
                  \<and> rs ! length pre = \<lparr>r_name = snd (snd (known ! idx)) @ '' (Marked)'',
                                         r_confidence = c, r_location = [t, r, b, l]\<rparr>
                  \<and> new_attendance env (length pre) (fst (snd (known ! idx))) \<in> set (attendances st')))"
proof -
  let ?ke = "map fst known" and ?ki = "map (fst \<circ> snd) known" and ?kn = "map (snd \<circ> snd) known"
  let ?face = "((t, r, b, l), live)"
  from match have idx: "idx < length known" by (auto dest: compare_face_index)
  then have ix: "idx < length ?kn" "idx < length ?ki" by simp_all
  from idx have ki: "?ki ! idx = fst (snd (known ! idx))" and kn: "?kn ! idx = snd (snd (known ! idx))"
    by simp_all
  from reads have r0: "read_error env 0 = None" and rk: "read_error env (Suc (0 + length pre)) = None"
    by blast+
  from unmarked ki have un: "rows_for (?ki ! idx) (today env) (attendances st1) = []" by simp
  have lens: "length ?ki = length ?ke" "length ?kn = length ?ke" by simp_all
  have rs1: "length rs1 = length pre" using before by (rule recognize_loop_length)
  have whole: "\<And>st2 res. recognize_face env ?ke ?ki ?kn (0 + length pre) st1 ?face = (st2, Inr res) \<Longrightarrow>
      recognize_loop env ?ke ?ki ?kn 0 st (pre @ [?face]) = (st2, Inr (rs1 @ [res]))
      \<and> (\<exists>st' rs rest new. recognize env req st = (st', (200, Results rs))
            \<and> length rs = length (zip locations live_encodings)
            \<and> rs ! length pre = res
            \<and> log st' = log st2 @ rest
            \<and> attendances st' = attendances st2 @ new)"
  proof -
    fix st2 res
    assume f: "recognize_face env ?ke ?ki ?kn (0 + length pre) st1 ?face = (st2, Inr res)"
    from recognize_loop_snoc [OF before f]
    have a: "recognize_loop env ?ke ?ki ?kn 0 st (pre @ [?face]) = (st2, Inr (rs1 @ [res]))" .
    from recognize_loop_returns [OF reads lens]
    obtain st' rs2 where p: "recognize_loop env ?ke ?ki ?kn (0 + length (pre @ [?face])) st2 post = (st', Inr rs2)"
      by blast
    have "zip locations live_encodings = (pre @ [?face]) @ post" using faces by simp
    then have l: "recognize_loop env ?ke ?ki ?kn 0 st (zip locations live_encodings)
        = (st', Inr ((rs1 @ [res]) @ rs2))"
      using a p by (simp only: recognize_loop_append prod.case sum.case)
    from recognize_runs_loop [OF img dec locs encs r0 known] l
    have rec: "recognize env req st = (st', (200, Results ((rs1 @ [res]) @ rs2)))" by simp
    from recognize_loop_length [OF l]
    have len: "length ((rs1 @ [res]) @ rs2) = length (zip locations live_encodings)" .
    from rs1 have nth: "((rs1 @ [res]) @ rs2) ! length pre = res"
      by (simp add: nth_append)
    from recognize_loop_log [OF p] obtain rest where lg: "log st' = log st2 @ rest" by blast
    from recognize_loop_effect [OF p] obtain new where at: "attendances st' = attendances st2 @ new"
      by blast
    from a rec len nth lg at
    show "recognize_loop env ?ke ?ki ?kn 0 st (pre @ [?face]) = (st2, Inr (rs1 @ [res]))
      \<and> (\<exists>st' rs rest new. recognize env req st = (st', (200, Results rs))
            \<and> length rs = length (zip locations live_encodings)
            \<and> rs ! length pre = res
            \<and> log st' = log st2 @ rest
            \<and> attendances st' = attendances st2 @ new)"
      by blast
  qed
  show ?thesis
  proof (intro conjI impI)
    assume fail: "insert_error env (length pre) = Some e"
    then have fail': "insert_error env (0 + length pre) = Some e" by simp
    note f = recognize_face_insert_fails [OF match ix rk un fail', of t r b l]
    from whole [OF f] kn
    show "recognize_loop env ?ke ?ki ?kn 0 st (pre @ [?face])
              = (st1\<lparr>log := log st1 @ [''Error marking attendance: '' @ e]\<rparr>,
                 Inr (rs1 @ [\<lparr>r_name = snd (snd (known ! idx)), r_confidence = c,
                              r_location = [t, r, b, l]\<rparr>]))"
      by simp
    from whole [OF f] kn
    show "\<exists>st' rs rest.
                  recognize env req st = (st', (200, Results rs))
                  \<and> length rs = length (zip locations live_encodings)
                  \<and> rs ! length pre = \<lparr>r_name = snd (snd (known ! idx)), r_confidence = c,
                                         r_location = [t, r, b, l]\<rparr>
                  \<and> log st' = log st1 @ [''Error marking attendance: '' @ e] @ rest"
      by auto
  next
    assume ok: "insert_error env (length pre) = None"
    then have ok': "insert_error env (0 + length pre) = None" by simp
    note f = recognize_face_insert_succeeds [OF match ix rk un ok', of t r b l]
    from whole [OF f] kn ki
    show "recognize_loop env ?ke ?ki ?kn 0 st (pre @ [?face])
              = (st1\<lparr>attendances := attendances st1
                        @ [new_attendance env (length pre) (fst (snd (known ! idx)))]\<rparr>,
                 Inr (rs1 @ [\<lparr>r_name = snd (snd (known ! idx)) @ '' (Marked)'', r_confidence = c,
                              r_location = [t, r, b, l]\<rparr>]))"
      by simp
    from whole [OF f] kn ki
    show "\<exists>st' rs.
                  recognize env req st = (st', (200, Results rs))
                  \<and> length rs = length (zip locations live_encodings)
                  \<and> rs ! length pre = \<lparr>r_name = snd (snd (known ! idx)) @ '' (Marked)'',
                                         r_confidence = c, r_location = [t, r, b, l]\<rparr>
                  \<and> new_attendance env (length pre) (fst (snd (known ! idx))) \<in> set (attendances st')"
      by auto
  qed
qed

theorem insert_failure_caught_witness:
  "image \<lparr>image = Some [1]\<rparr> = Some [1]
   \<and> imdecode (sample_env (Inr (Some sample_image)) no_error locked) [1] = Inr (Some sample_image)
   \<and> (\<forall>n. read_error (sample_env (Inr (Some sample_image)) no_error locked) n = None)
   \<and> known_faces sample_state = [(4, 1, ''Ada''), (9, 2, ''Bob'')]
   \<and> zip (map fst sample_image) (map snd sample_image)
        = [((5, 6, 7, 8), 20)] @ ((0, 10, 10, 0), 4) # [((1, 1, 1, 1), 9)]
   \<and> recognize_loop (sample_env (Inr (Some sample_image)) no_error locked) [4, 9] [1, 2]
        [''Ada'', ''Bob''] 0 sample_state [((5, 6, 7, 8), 20)]
        = (sample_state, Inr [\<lparr>r_name = ''Unknown'', r_confidence = - 10, r_location = [5, 6, 7, 8]\<rparr>])
   \<and> compare_face line_distance line_confidence [4, 9] 4 (1/2) = (Some 0, 1)
   \<and> rows_for 1 (Date 2024 3 1) (attendances sample_state) = []
   \<and> insert_error (sample_env (Inr (Some sample_image)) no_error locked) 1 = Some ''database is locked''
   \<and> recognize (sample_env (Inr (Some sample_image)) no_error locked) \<lparr>image = Some [1]\<rparr> sample_state
        = (sample_state\<lparr>log := [''Error marking attendance: database is locked'',
                                  ''Error marking attendance: database is locked'']\<rparr>,
           (200, Results
             [\<lparr>r_name = ''Unknown'', r_confidence = - 10, r_location = [5, 6, 7, 8]\<rparr>,
              \<lparr>r_name = ''Ada'', r_confidence = 1, r_location = [0, 10, 10, 0]\<rparr>,
              \<lparr>r_name = ''Bob'', r_confidence = 1, r_location = [1, 1, 1, 1]\<rparr>]))
   \<and> insert_error (sample_env (Inr (Some sample_image)) no_error no_error) 1 = None
   \<and> (\<exists>st' rs.
        recognize (sample_env (Inr (Some sample_image)) no_error no_error) \<lparr>image = Some [1]\<rparr> sample_state
          = (st', (200, Results rs))
        \<and> length rs = 3
        \<and> rs ! 1 = \<lparr>r_name = ''Ada (Marked)'', r_confidence = 1, r_location = [0, 10, 10, 0]\<rparr>
        \<and> new_attendance (sample_env (Inr (Some sample_image)) no_error no_error) 1 1
             \<in> set (attendances st'))"
proof -
  let ?E = "sample_env (Inr (Some sample_image)) no_error locked"
  let ?F = "sample_env (Inr (Some sample_image)) no_error no_error"
  let ?K = "[(4, 1, ''Ada''), (9, 2, ''Bob'')] :: (real \<times> int \<times> string) list"
  let ?U = "\<lparr>r_name = ''Unknown'', r_confidence = - 10, r_location = [5, 6, 7, 8]\<rparr>"
  let ?req = "\<lparr>image = Some [1]\<rparr>"
  have img: "image ?req = Some [1]" by simp
  have dec: "imdecode ?E [1] = Inr (Some sample_image)" and dec': "imdecode ?F [1] = Inr (Some sample_image)"
    by (simp_all add: sample_env_def)
  have locs: "face_locations ?E (cvtColor ?E sample_image) = Inr (map fst sample_image)"
    and locs': "face_locations ?F (cvtColor ?F sample_image) = Inr (map fst sample_image)"
    by (simp_all add: sample_env_def)
  have encs: "face_encodings ?E (cvtColor ?E sample_image) (map fst sample_image) = Inr (map snd sample_image)"
    and encs': "face_encodings ?F (cvtColor ?F sample_image) (map fst sample_image) = Inr (map snd sample_image)"
    by (simp_all add: sample_env_def)
  have reads: "\<forall>n. read_error ?E n = None" and reads': "\<forall>n. read_error ?F n = None"
    by (simp_all add: sample_env_def no_error_def)
  have known: "known_faces sample_state = ?K" by (simp add: known_faces_def sample_state_def)
  have ne: "?K \<noteq> []" by simp
  have faces: "zip (map fst sample_image) (map snd sample_image)
        = [((5, 6, 7, 8), 20)] @ ((0, 10, 10, 0), 4) # [((1, 1, 1, 1), 9)]"
    by (simp add: sample_image_def)
  have before: "recognize_loop ?E (map fst ?K) (map (fst \<circ> snd) ?K) (map (snd \<circ> snd) ?K) 0 sample_state
        [((5, 6, 7, 8), 20)] = (sample_state, Inr [?U])"
    and before': "recognize_loop ?F (map fst ?K) (map (fst \<circ> snd) ?K) (map (snd \<circ> snd) ?K) 0 sample_state
        [((5, 6, 7, 8), 20)] = (sample_state, Inr [?U])"
    by (simp_all add: eval_defs)
  have match: "compare_face (face_distance ?E) (confidence_of ?E) (map fst ?K) 4 (1/2) = (Some 0, 1)"
    and match': "compare_face (face_distance ?F) (confidence_of ?F) (map fst ?K) 4 (1/2) = (Some 0, 1)"
    by (simp_all add: eval_defs)
  have un: "rows_for (fst (snd (?K ! 0))) (today ?E) (attendances sample_state) = []"
    and un': "rows_for (fst (snd (?K ! 0))) (today ?F) (attendances sample_state) = []"
    by (simp_all add: eval_defs)
  have fail: "insert_error ?E 1 = Some ''database is locked''" by (simp add: sample_env_def locked_def)
  have ok: "insert_error ?F 1 = None" by (simp add: sample_env_def no_error_def)
  note t = insert_failure_caught [OF img dec locs encs reads known ne faces before match un,
      where e = "''database is locked''"]
  from t fail obtain st' rs rest where
    r: "recognize ?E ?req sample_state = (st', (200, Results rs))"
    and n: "rs ! 1 = \<lparr>r_name = ''Ada'', r_confidence = 1, r_location = [0, 10, 10, 0]\<rparr>"
    by auto
  have full: "recognize ?E ?req sample_state
        = (sample_state\<lparr>log := [''Error marking attendance: database is locked'',
                                  ''Error marking attendance: database is locked'']\<rparr>,
           (200, Results
             [?U, \<lparr>r_name = ''Ada'', r_confidence = 1, r_location = [0, 10, 10, 0]\<rparr>,
              \<lparr>r_name = ''Bob'', r_confidence = 1, r_location = [1, 1, 1, 1]\<rparr>]))"
    by (simp add: eval_defs)
  note t' = insert_failure_caught [OF img dec' locs' encs' reads' known ne faces before' match' un']
  from t' ok have c2: "\<exists>st' rs.
        recognize ?F ?req sample_state = (st', (200, Results rs))
        \<and> length rs = 3
        \<and> rs ! 1 = \<lparr>r_name = ''Ada (Marked)'', r_confidence = 1, r_location = [0, 10, 10, 0]\<rparr>
        \<and> new_attendance ?F 1 1 \<in> set (attendances st')"
    by (auto simp: sample_image_def)
  have b2: "recognize_loop ?E [4, 9] [1, 2] [''Ada'', ''Bob''] 0 sample_state [((5, 6, 7, 8), 20)]
        = (sample_state, Inr [?U])"
    using before by simp
  have m2: "compare_face line_distance line_confidence [4, 9] 4 (1/2) = (Some 0, 1)"
    using match by (simp add: sample_env_def)
  have u2: "rows_for 1 (Date 2024 3 1) (attendances sample_state) = []"
    using un by (simp add: sample_env_def)
  from img dec reads known faces b2 m2 u2 fail full ok c2 show ?thesis by blast
qed




text \<open>
  Claim C8. An exception that leaves the try block of the recognition endpoint
  gives status 500 with the exception's string as the error, and is logged; an
  exception that leaves the try block of either reporting endpoint gives
  status 400 with the exception's string as the error.
\<close>

theorem unhandled_exceptions:
  "(image req = Some b \<and> recognize_try env b st = (st', Inl e) \<longrightarrow>
      recognize env req st = (st'\<lparr>log := log st' @ [''Recognition error: '' @ e]\<rparr>, (500, Error e)))
   \<and> (get_reports_try env args st = Inl e \<longrightarrow> get_reports_data env args st = (400, Error e))
   \<and> (export_try env args st = Inl e \<longrightarrow> export_csv env args st = (400, Error e))"
  by (simp add: recognize_def get_reports_data_def export_csv_def)

theorem unhandled_exceptions_witness:
  "image \<lparr>image = Some [1]\<rparr> = Some [1]
   \<and> recognize_try (sample_env (Inl ''buffer is empty'') no_error no_error) [1] sample_state
        = (sample_state, Inl ''buffer is empty'')
   \<and> recognize (sample_env (Inl ''buffer is empty'') no_error no_error) \<lparr>image = Some [1]\<rparr> sample_state
        = (sample_state\<lparr>log := [''Recognition error: buffer is empty'']\<rparr>,
           (500, Error ''buffer is empty''))
   \<and> get_reports_try (sample_env (Inr None) no_error no_error)
         \<lparr>start_date = None, end_date = Some ''2024-03-31''\<rparr> sample_state
        = Inl ''strptime() argument 1 must be str, not None''
   \<and> get_reports_data (sample_env (Inr None) no_error no_error)
         \<lparr>start_date = None, end_date = Some ''2024-03-31''\<rparr> sample_state
        = (400, Error ''strptime() argument 1 must be str, not None'')
   \<and> export_try (sample_env (Inr None) no_error no_error)
         \<lparr>start_date = Some ''2024-03-01'', end_date = Some ''31/03/2024''\<rparr> sample_state
        = Inl ''time data does not match format''
   \<and> export_csv (sample_env (Inr None) no_error no_error)
         \<lparr>start_date = Some ''2024-03-01'', end_date = Some ''31/03/2024''\<rparr> sample_state
        = (400, Error ''time data does not match format'')"
proof -
  let ?E = "sample_env (Inl ''buffer is empty'') no_error no_error :: ((location \<times> real) list, real) env"
  let ?F = "sample_env (Inr None) no_error no_error :: ((location \<times> real) list, real) env"
  have h1: "image \<lparr>image = Some [1]\<rparr> = Some [1]" by simp
  have h2: "recognize_try ?E [1] sample_state = (sample_state, Inl ''buffer is empty'')"
    by (simp add: recognize_try_def sample_env_def)
  have h3: "get_reports_try ?F \<lparr>start_date = None, end_date = Some ''2024-03-31''\<rparr> sample_state
        = Inl ''strptime() argument 1 must be str, not None''"
    by (simp add: get_reports_try_def parse_date_def)
  have h4: "export_try ?F \<lparr>start_date = Some ''2024-03-01'', end_date = Some ''31/03/2024''\<rparr> sample_state
        = Inl ''time data does not match format''"
    by (simp add: export_try_def parse_date_def sample_env_def sample_strptime_def)
  note t = unhandled_exceptions
  from t [of "\<lparr>image = Some [1]\<rparr>" "[1]" ?E sample_state sample_state "''buffer is empty''"] h1 h2
  have c1: "recognize ?E \<lparr>image = Some [1]\<rparr> sample_state
        = (sample_state\<lparr>log := [''Recognition error: buffer is empty'']\<rparr>,
           (500, Error ''buffer is empty''))"
    by (simp add: sample_state_def)
  from t [where env = ?F and args = "\<lparr>start_date = None, end_date = Some ''2024-03-31''\<rparr>"
      and st = sample_state and e = "''strptime() argument 1 must be str, not None''"] h3
  have c2: "get_reports_data ?F \<lparr>start_date = None, end_date = Some ''2024-03-31''\<rparr> sample_state
        = (400, Error ''strptime() argument 1 must be str, not None'')"
    by blast
  from t [where env = ?F and args = "\<lparr>start_date = Some ''2024-03-01'', end_date = Some ''31/03/2024''\<rparr>"
      and st = sample_state and e = "''time data does not match format''"] h4
  have c3: "export_csv ?F \<lparr>start_date = Some ''2024-03-01'', end_date = Some ''31/03/2024''\<rparr> sample_state
        = (400, Error ''time data does not match format'')"
    by blast
  from h1 h2 c1 h3 c2 h4 c3 show ?thesis by blast
qed

text \<open>
  Claim C9. With no stored face, a request whose image decodes and whose
  detection and database read do not raise is answered with status 200, an empty
  list of results and the detected locations, however many they are; the state
  is unchanged, so no attendance row is inserted.
\<close>

theorem recognize_no_known_faces:
  assumes "faces st = []"
    and "image req = Some b"
    and "imdecode env b = Inr (Some img)"
    and "face_locations env (cvtColor env img) = Inr locations"
    and "face_encodings env (cvtColor env img) locations = Inr live_encodings"
    and "read_error env 0 = None"
  shows "recognize env req st = (st, (200, ResultsLocations [] locations))"
  using assms by (simp add: recognize_def recognize_try_def known_faces_def)

theorem recognize_no_known_faces_witness:
  "faces (sample_state\<lparr>faces := []\<rparr>) = []
   \<and> image \<lparr>image = Some [1]\<rparr> = Some [1]
   \<and> imdecode (sample_env (Inr (Some [((0, 10, 10, 0), 4), ((5, 6, 7, 8), 20)])) no_error no_error) [1]
        = Inr (Some [((0, 10, 10, 0), 4), ((5, 6, 7, 8), 20)])
   \<and> read_error (sample_env (Inr (Some [((0, 10, 10, 0), 4), ((5, 6, 7, 8), 20)])) no_error no_error) 0 = None
   \<and> recognize (sample_env (Inr (Some [((0, 10, 10, 0), 4), ((5, 6, 7, 8), 20)])) no_error no_error)
        \<lparr>image = Some [1]\<rparr> (sample_state\<lparr>faces := []\<rparr>)
      = (sample_state\<lparr>faces := []\<rparr>, (200, ResultsLocations [] [(0, 10, 10, 0), (5, 6, 7, 8)]))"
proof -
  let ?img = "[((0, 10, 10, 0), 4), ((5, 6, 7, 8), 20)] :: (location \<times> real) list"
  let ?E = "sample_env (Inr (Some ?img)) no_error no_error"
  have h1: "faces (sample_state\<lparr>faces := []\<rparr>) = []" by simp
  have h2: "image \<lparr>image = Some [1]\<rparr> = Some [1]" by simp
  have h3: "imdecode ?E [1] = Inr (Some ?img)" by (simp add: sample_env_def)
  have h4: "face_locations ?E (cvtColor ?E ?img) = Inr [(0, 10, 10, 0), (5, 6, 7, 8)]"
    by (simp add: sample_env_def)
  have h5: "face_encodings ?E (cvtColor ?E ?img) [(0, 10, 10, 0), (5, 6, 7, 8)] = Inr [4, 20]"
    by (simp add: sample_env_def)
  have h6: "read_error ?E 0 = None" by (simp add: sample_env_def no_error_def)
  from recognize_no_known_faces [OF h1 h2 h3 h4 h5 h6] h1 h2 h3 h6 show ?thesis by blast
qed

text \<open>
  Claim C10. A detected face without a match leaves the state as it is and is
  reported as Unknown: in the loop body, in the loop after any faces before it,
  and in the response of the endpoint, where the entry of every unmatched face
  is named Unknown. The loop only appends attendance rows, each with today's
  date and the id of a student matched for one of the faces. A whole request
  leaves the students and the faces as they are, and only appends attendance rows
  that have today's date and belong to a student of the table whose stored
  encoding the matcher selected for one of the faces detected in the request.
\<close>

theorem unmatched_face_and_frame:
  "(fst (compare_face (face_distance env) (confidence_of env) ke live (1/2)) = None \<longrightarrow>
      recognize_face env ke ki kn i st ((t, r, b, l), live)
        = (st, Inr \<lparr>r_name = ''Unknown'',
                    r_confidence = snd (compare_face (face_distance env) (confidence_of env) ke live (1/2)),
                    r_location = [t, r, b, l]\<rparr>))
   \<and> (recognize_loop env ke ki kn i st pre = (st1, Inr rs1)
        \<and> fst (compare_face (face_distance env) (confidence_of env) ke live (1/2)) = None \<longrightarrow>
      recognize_loop env ke ki kn i st (pre @ [((t, r, b, l), live)])
        = (st1, Inr (rs1 @ [\<lparr>r_name = ''Unknown'',
                    r_confidence = snd (compare_face (face_distance env) (confidence_of env) ke live (1/2)),
                    r_location = [t, r, b, l]\<rparr>])))
   \<and> (image req = Some upload \<and> imdecode env upload = Inr (Some img)
        \<and> face_locations env (cvtColor env img) = Inr locations
        \<and> face_encodings env (cvtColor env img) locations = Inr live_encodings
        \<and> recognize env req st = (st', (200, Results rs)) \<longrightarrow>
      length rs = length (zip locations live_encodings)
      \<and> (\<forall>k<length rs.
            fst (compare_face (face_distance env) (confidence_of env) (map fst (known_faces st))
                   (snd (zip locations live_encodings ! k)) (1/2)) = None
            \<longrightarrow> r_name (rs ! k) = ''Unknown''))
   \<and> (recognize_loop env ke ki kn i st fs = (st', res) \<longrightarrow>
        (\<exists>new. attendances st' = attendances st @ new
           \<and> (\<forall>a\<in>set new. a_date a = today env
                 \<and> (\<exists>face\<in>set fs. \<exists>idx.
                       fst (compare_face (face_distance env) (confidence_of env) ke (snd face) (1/2)) = Some idx
                       \<and> idx < length ki \<and> a_student_id a = ki ! idx))))
   \<and> (recognize env req st = (st'', resp) \<longrightarrow>
        students st'' = students st \<and> faces st'' = faces st
        \<and> (\<exists>new. attendances st'' = attendances st @ new
           \<and> (\<forall>a\<in>set new. a_date a = today env
                 \<and> a_student_id a \<in> set (map s_id (students st))
                 \<and> (\<exists>upload img locations live_encodings face idx.
                       image req = Some upload \<and> imdecode env upload = Inr (Some img)
                       \<and> face_locations env (cvtColor env img) = Inr locations
                       \<and> face_encodings env (cvtColor env img) locations = Inr live_encodings
                       \<and> face \<in> set (zip locations live_encodings)
                       \<and> fst (compare_face (face_distance env) (confidence_of env)
                                (map fst (known_faces st)) (snd face) (1/2)) = Some idx
                       \<and> idx < length (known_faces st)
                       \<and> a_student_id a = fst (snd (known_faces st ! idx))))))"
proof (intro conjI)
  show "fst (compare_face (face_distance env) (confidence_of env) ke live (1/2)) = None \<longrightarrow>
      recognize_face env ke ki kn i st ((t, r, b, l), live)
        = (st, Inr \<lparr>r_name = ''Unknown'',
                    r_confidence = snd (compare_face (face_distance env) (confidence_of env) ke live (1/2)),
                    r_location = [t, r, b, l]\<rparr>)"
    by (simp add: recognize_face_unmatched)
  show "recognize_loop env ke ki kn i st pre = (st1, Inr rs1)
        \<and> fst (compare_face (face_distance env) (confidence_of env) ke live (1/2)) = None \<longrightarrow>
      recognize_loop env ke ki kn i st (pre @ [((t, r, b, l), live)])
        = (st1, Inr (rs1 @ [\<lparr>r_name = ''Unknown'',
                    r_confidence = snd (compare_face (face_distance env) (confidence_of env) ke live (1/2)),
                    r_location = [t, r, b, l]\<rparr>]))"
    by (auto intro: recognize_loop_snoc recognize_face_unmatched)
  show "image req = Some upload \<and> imdecode env upload = Inr (Some img)
        \<and> face_locations env (cvtColor env img) = Inr locations
        \<and> face_encodings env (cvtColor env img) locations = Inr live_encodings
        \<and> recognize env req st = (st', (200, Results rs)) \<longrightarrow>
      length rs = length (zip locations live_encodings)
      \<and> (\<forall>k<length rs.
            fst (compare_face (face_distance env) (confidence_of env) (map fst (known_faces st))
                   (snd (zip locations live_encodings ! k)) (1/2)) = None
            \<longrightarrow> r_name (rs ! k) = ''Unknown'')"
  proof
    assume a: "image req = Some upload \<and> imdecode env upload = Inr (Some img)
        \<and> face_locations env (cvtColor env img) = Inr locations
        \<and> face_encodings env (cvtColor env img) locations = Inr live_encodings
        \<and> recognize env req st = (st', (200, Results rs))"
    then have l: "recognize_loop env (map fst (known_faces st)) (map (fst \<circ> snd) (known_faces st))
           (map (snd \<circ> snd) (known_faces st)) 0 st (zip locations live_encodings) = (st', Inr rs)"
      by (blast intro: recognize_results_loop)
    from recognize_loop_length [OF l] have len: "length rs = length (zip locations live_encodings)" .
    have "\<forall>k<length rs.
            fst (compare_face (face_distance env) (confidence_of env) (map fst (known_faces st))
                   (snd (zip locations live_encodings ! k)) (1/2)) = None
            \<longrightarrow> r_name (rs ! k) = ''Unknown''"
    proof (intro allI impI)
      fix k
      assume k: "k < length rs"
        and n: "fst (compare_face (face_distance env) (confidence_of env) (map fst (known_faces st))
                   (snd (zip locations live_encodings ! k)) (1/2)) = None"
      from k len have "k < length (zip locations live_encodings)" by simp
      from recognize_loop_names [OF l this] n show "r_name (rs ! k) = ''Unknown''" by simp
    qed
    with len show "length rs = length (zip locations live_encodings)
      \<and> (\<forall>k<length rs.
            fst (compare_face (face_distance env) (confidence_of env) (map fst (known_faces st))
                   (snd (zip locations live_encodings ! k)) (1/2)) = None
            \<longrightarrow> r_name (rs ! k) = ''Unknown'')"
      by blast
  qed
  show "recognize_loop env ke ki kn i st fs = (st', res) \<longrightarrow>
        (\<exists>new. attendances st' = attendances st @ new
           \<and> (\<forall>a\<in>set new. a_date a = today env
                 \<and> (\<exists>face\<in>set fs. \<exists>idx.
                       fst (compare_face (face_distance env) (confidence_of env) ke (snd face) (1/2)) = Some idx
                       \<and> idx < length ki \<and> a_student_id a = ki ! idx)))"
    using recognize_loop_effect by blast
  show "recognize env req st = (st'', resp) \<longrightarrow>
        students st'' = students st \<and> faces st'' = faces st
        \<and> (\<exists>new. attendances st'' = attendances st @ new
           \<and> (\<forall>a\<in>set new. a_date a = today env
                 \<and> a_student_id a \<in> set (map s_id (students st))
                 \<and> (\<exists>upload img locations live_encodings face idx.
                       image req = Some upload \<and> imdecode env upload = Inr (Some img)
                       \<and> face_locations env (cvtColor env img) = Inr locations
                       \<and> face_encodings env (cvtColor env img) locations = Inr live_encodings
                       \<and> face \<in> set (zip locations live_encodings)
                       \<and> fst (compare_face (face_distance env) (confidence_of env)
                                (map fst (known_faces st)) (snd face) (1/2)) = Some idx
                       \<and> idx < length (known_faces st)
                       \<and> a_student_id a = fst (snd (known_faces st ! idx)))))"
  proof
    assume r: "recognize env req st = (st'', resp)"
    let ?k = "known_faces st"
    from recognize_cases [OF r] show "students st'' = students st \<and> faces st'' = faces st
        \<and> (\<exists>new. attendances st'' = attendances st @ new
           \<and> (\<forall>a\<in>set new. a_date a = today env
                 \<and> a_student_id a \<in> set (map s_id (students st))
                 \<and> (\<exists>upload img locations live_encodings face idx.
                       image req = Some upload \<and> imdecode env upload = Inr (Some img)
                       \<and> face_locations env (cvtColor env img) = Inr locations
                       \<and> face_encodings env (cvtColor env img) locations = Inr live_encodings
                       \<and> face \<in> set (zip locations live_encodings)
                       \<and> fst (compare_face (face_distance env) (confidence_of env)
                                (map fst ?k) (snd face) (1/2)) = Some idx
                       \<and> idx < length ?k
                       \<and> a_student_id a = fst (snd (?k ! idx)))))"
    proof
      assume "students st'' = students st \<and> faces st'' = faces st \<and> attendances st'' = attendances st"
      then show ?thesis by simp
    next
      assume "\<exists>upload img locations live_encodings st1 r.
           image req = Some upload \<and> imdecode env upload = Inr (Some img)
           \<and> face_locations env (cvtColor env img) = Inr locations
           \<and> face_encodings env (cvtColor env img) locations = Inr live_encodings
           \<and> recognize_loop env (map fst ?k) (map (fst \<circ> snd) ?k) (map (snd \<circ> snd) ?k) 0 st
                (zip locations live_encodings) = (st1, r)
           \<and> students st'' = students st1 \<and> faces st'' = faces st1 \<and> attendances st'' = attendances st1"
      then obtain upload img locations live_encodings st1 r0 where
        p: "image req = Some upload" "imdecode env upload = Inr (Some img)"
          "face_locations env (cvtColor env img) = Inr locations"
          "face_encodings env (cvtColor env img) locations = Inr live_encodings"
        and l: "recognize_loop env (map fst ?k) (map (fst \<circ> snd) ?k) (map (snd \<circ> snd) ?k) 0 st
                (zip locations live_encodings) = (st1, r0)"
        and tabs: "students st'' = students st1" "faces st'' = faces st1" "attendances st'' = attendances st1"
        by blast
      note e = recognize_loop_effect [OF l]
      from e obtain new where new: "attendances st1 = attendances st @ new"
        "\<forall>a\<in>set new. a_date a = today env
            \<and> (\<exists>face\<in>set (zip locations live_encodings). \<exists>idx.
                  fst (compare_face (face_distance env) (confidence_of env) (map fst ?k) (snd face) (1/2)) = Some idx
                  \<and> idx < length (map (fst \<circ> snd) ?k) \<and> a_student_id a = map (fst \<circ> snd) ?k ! idx)"
        by blast
      have "\<forall>a\<in>set new. a_date a = today env
                 \<and> a_student_id a \<in> set (map s_id (students st))
                 \<and> (\<exists>upload img locations live_encodings face idx.
                       image req = Some upload \<and> imdecode env upload = Inr (Some img)
                       \<and> face_locations env (cvtColor env img) = Inr locations
                       \<and> face_encodings env (cvtColor env img) locations = Inr live_encodings
                       \<and> face \<in> set (zip locations live_encodings)
                       \<and> fst (compare_face (face_distance env) (confidence_of env)
                                (map fst ?k) (snd face) (1/2)) = Some idx
                       \<and> idx < length ?k
                       \<and> a_student_id a = fst (snd (?k ! idx)))"
      proof
        fix a assume "a \<in> set new"
        with new(2) obtain face idx where d: "a_date a = today env"
          and f: "face \<in> set (zip locations live_encodings)"
          and m: "fst (compare_face (face_distance env) (confidence_of env) (map fst ?k) (snd face) (1/2)) = Some idx"
          and idx: "idx < length (map (fst \<circ> snd) ?k)" "a_student_id a = map (fst \<circ> snd) ?k ! idx"
          by blast
        from idx have i1: "idx < length ?k" and i2: "a_student_id a = fst (snd (?k ! idx))"
          by simp_all
        from idx have "a_student_id a \<in> set (map (fst \<circ> snd) ?k)"
          using nth_mem by metis
        with known_faces_ids [of st] have s: "a_student_id a \<in> set (map s_id (students st))"
          by blast
        from d s p f m i1 i2
        show "a_date a = today env
                 \<and> a_student_id a \<in> set (map s_id (students st))
                 \<and> (\<exists>upload img locations live_encodings face idx.
                       image req = Some upload \<and> imdecode env upload = Inr (Some img)
                       \<and> face_locations env (cvtColor env img) = Inr locations
                       \<and> face_encodings env (cvtColor env img) locations = Inr live_encodings
                       \<and> face \<in> set (zip locations live_encodings)
                       \<and> fst (compare_face (face_distance env) (confidence_of env)
                                (map fst ?k) (snd face) (1/2)) = Some idx
                       \<and> idx < length ?k
                       \<and> a_student_id a = fst (snd (?k ! idx)))"
          by blast
      qed
      with new(1) e tabs show ?thesis by auto
    qed
  qed
qed

theorem unmatched_face_and_frame_witness:
  "fst (compare_face line_distance line_confidence [4, 9] 20 (1/2)) = None
   \<and> recognize_face (sample_env (Inr (Some sample_image)) no_error no_error) [4, 9] [1, 2]
        [''Ada'', ''Bob''] 0 sample_state ((5, 6, 7, 8), 20)
      = (sample_state, Inr \<lparr>r_name = ''Unknown'', r_confidence = - 10, r_location = [5, 6, 7, 8]\<rparr>)
   \<and> recognize_loop (sample_env (Inr (Some sample_image)) no_error no_error) [4, 9] [1, 2]
        [''Ada'', ''Bob''] 0 sample_state [] = (sample_state, Inr [])
   \<and> recognize_loop (sample_env (Inr (Some sample_image)) no_error no_error) [4, 9] [1, 2]
        [''Ada'', ''Bob''] 0 sample_state ([] @ [((5, 6, 7, 8), 20)])
      = (sample_state, Inr ([] @ [\<lparr>r_name = ''Unknown'', r_confidence = - 10, r_location = [5, 6, 7, 8]\<rparr>]))
   \<and> image \<lparr>image = Some [1]\<rparr> = Some [1]
   \<and> imdecode (sample_env (Inr (Some sample_image)) no_error no_error) [1] = Inr (Some sample_image)
   \<and> recognize (sample_env (Inr (Some sample_image)) no_error no_error) \<lparr>image = Some [1]\<rparr> sample_state
      = (sample_state\<lparr>attendances :=
            [new_attendance (sample_env (Inr (Some sample_image)) no_error no_error) 1 1,
             new_attendance (sample_env (Inr (Some sample_image)) no_error no_error) 2 2]\<rparr>,
         (200, Results
           [\<lparr>r_name = ''Unknown'', r_confidence = - 10, r_location = [5, 6, 7, 8]\<rparr>,
            \<lparr>r_name = ''Ada (Marked)'', r_confidence = 1, r_location = [0, 10, 10, 0]\<rparr>,
            \<lparr>r_name = ''Bob (Marked)'', r_confidence = 1, r_location = [1, 1, 1, 1]\<rparr>]))
   \<and> fst (compare_face line_distance line_confidence (map fst (known_faces sample_state))
          (snd (zip (map fst sample_image) (map snd sample_image) ! 0)) (1/2)) = None
   \<and> (\<exists>st' rs. recognize (sample_env (Inr (Some sample_image)) no_error no_error)
           \<lparr>image = Some [1]\<rparr> sample_state = (st', (200, Results rs))
        \<and> length rs = 3 \<and> r_name (rs ! 0) = ''Unknown''
        \<and> students st' = students sample_state \<and> faces st' = faces sample_state
        \<and> (\<exists>new. attendances st' = attendances sample_state @ new
              \<and> list_all (\<lambda>a. a_date a = Date 2024 3 1 \<and> a_student_id a \<in> {1, 2}) new
              \<and> length new = 2))"
proof -
  let ?F = "sample_env (Inr (Some sample_image)) no_error no_error"
  let ?U = "\<lparr>r_name = ''Unknown'', r_confidence = - 10, r_location = [5, 6, 7, 8]\<rparr>"
  let ?req = "\<lparr>image = Some [1]\<rparr>"
  let ?S = "sample_state\<lparr>attendances := [new_attendance ?F 1 1, new_attendance ?F 2 2]\<rparr>"
  let ?RS = "[?U, \<lparr>r_name = ''Ada (Marked)'', r_confidence = 1, r_location = [0, 10, 10, 0]\<rparr>,
            \<lparr>r_name = ''Bob (Marked)'', r_confidence = 1, r_location = [1, 1, 1, 1]\<rparr>]"
  have un: "fst (compare_face (face_distance ?F) (confidence_of ?F) [4, 9] 20 (1/2)) = None"
    by (simp add: eval_defs)
  have un0: "fst (compare_face line_distance line_confidence [4, 9] 20 (1/2)) = None"
    using un by (simp add: sample_env_def)
  have sc: "snd (compare_face (face_distance ?F) (confidence_of ?F) [4, 9] 20 (1/2)) = - 10"
    by (simp add: eval_defs)
  have nil: "recognize_loop ?F [4, 9] [1, 2] [''Ada'', ''Bob''] 0 sample_state [] = (sample_state, Inr [])"
    by simp
  note t = unmatched_face_and_frame [where env = ?F and ke = "[4, 9]" and ki = "[1, 2]"
      and kn = "[''Ada'', ''Bob'']" and live = 20 and i = 0 and st = sample_state
      and t = 5 and r = 6 and b = 7 and l = 8 and pre = "[]" and ?st1.0 = sample_state and ?rs1.0 = "[]"
      and req = ?req and upload = "[1]" and img = sample_image and locations = "map fst sample_image"
      and live_encodings = "map snd sample_image" and st' = ?S and rs = ?RS
      and st'' = ?S and resp = "(200, Results ?RS)"]
  from t un sc have a: "recognize_face ?F [4, 9] [1, 2] [''Ada'', ''Bob''] 0 sample_state ((5, 6, 7, 8), 20)
      = (sample_state, Inr ?U)"
    by simp
  from t un sc nil have b: "recognize_loop ?F [4, 9] [1, 2] [''Ada'', ''Bob''] 0 sample_state
        ([] @ [((5, 6, 7, 8), 20)]) = (sample_state, Inr ([] @ [?U]))"
    by simp
  have img: "image ?req = Some [1]" by simp
  have dec: "imdecode ?F [1] = Inr (Some sample_image)" by (simp add: sample_env_def)
  have locs: "face_locations ?F (cvtColor ?F sample_image) = Inr (map fst sample_image)"
    by (simp add: sample_env_def)
  have encs: "face_encodings ?F (cvtColor ?F sample_image) (map fst sample_image) = Inr (map snd sample_image)"
    by (simp add: sample_env_def)
  have full: "recognize ?F ?req sample_state = (?S, (200, Results ?RS))"
    by (simp add: eval_defs)
  have un1: "fst (compare_face (face_distance ?F) (confidence_of ?F) (map fst (known_faces sample_state))
          (snd (zip (map fst sample_image) (map snd sample_image) ! 0)) (1/2)) = None"
    by (simp add: eval_defs)
  then have un1': "fst (compare_face line_distance line_confidence (map fst (known_faces sample_state))
          (snd (zip (map fst sample_image) (map snd sample_image) ! 0)) (1/2)) = None"
    by (simp add: sample_env_def)
  from t img dec locs encs full
  have c: "length ?RS = length (zip (map fst sample_image) (map snd sample_image))
      \<and> (\<forall>k<length ?RS.
            fst (compare_face (face_distance ?F) (confidence_of ?F) (map fst (known_faces sample_state))
                   (snd (zip (map fst sample_image) (map snd sample_image) ! k)) (1/2)) = None
            \<longrightarrow> r_name (?RS ! k) = ''Unknown'')"
    by blast
  have "(0::nat) < length ?RS" by simp
  with c un1 have c0: "r_name (?RS ! 0) = ''Unknown''" by blast
  note t5 = t [THEN conjunct2, THEN conjunct2, THEN conjunct2, THEN conjunct2, THEN mp, OF full]
  from t5 have e1: "students ?S = students sample_state" by (rule conjunct1)
  from t5 have e2: "faces ?S = faces sample_state" by (rule conjunct2 [THEN conjunct1])
  from t5 [THEN conjunct2, THEN conjunct2] obtain new where
    n: "attendances ?S = attendances sample_state @ new
        \<and> (\<forall>a\<in>set new. a_date a = today ?F
              \<and> a_student_id a \<in> set (map s_id (students sample_state))
              \<and> (\<exists>upload img locations live_encodings face idx.
                    image ?req = Some upload \<and> imdecode ?F upload = Inr (Some img)
                    \<and> face_locations ?F (cvtColor ?F img) = Inr locations
                    \<and> face_encodings ?F (cvtColor ?F img) locations = Inr live_encodings
                    \<and> face \<in> set (zip locations live_encodings)
                    \<and> fst (compare_face (face_distance ?F) (confidence_of ?F)
                             (map fst (known_faces sample_state)) (snd face) (1/2)) = Some idx
                    \<and> idx < length (known_faces sample_state)
                    \<and> a_student_id a = fst (snd (known_faces sample_state ! idx))))"
    ..
  from n have e3: "attendances ?S = attendances sample_state @ new" by (rule conjunct1)
  have e4: "\<forall>a\<in>set new. a_date a = today ?F \<and> a_student_id a \<in> set (map s_id (students sample_state))"
  proof
    fix a assume "a \<in> set new"
    with n [THEN conjunct2] have x: "a_date a = today ?F
              \<and> a_student_id a \<in> set (map s_id (students sample_state))
              \<and> (\<exists>upload img locations live_encodings face idx.
                    image ?req = Some upload \<and> imdecode ?F upload = Inr (Some img)
                    \<and> face_locations ?F (cvtColor ?F img) = Inr locations
                    \<and> face_encodings ?F (cvtColor ?F img) locations = Inr live_encodings
                    \<and> face \<in> set (zip locations live_encodings)
                    \<and> fst (compare_face (face_distance ?F) (confidence_of ?F)
                             (map fst (known_faces sample_state)) (snd face) (1/2)) = Some idx
                    \<and> idx < length (known_faces sample_state)
                    \<and> a_student_id a = fst (snd (known_faces sample_state ! idx)))"
      by (rule bspec)
    from x [THEN conjunct1] x [THEN conjunct2, THEN conjunct1]
    show "a_date a = today ?F \<and> a_student_id a \<in> set (map s_id (students sample_state))"
      by (rule conjI)
  qed
  from e3 have ln: "length new = 2" by (auto simp: sample_state_def)
  from e4 have la: "list_all (\<lambda>a. a_date a = Date 2024 3 1 \<and> a_student_id a \<in> {1, 2}) new"
    by (auto simp: list_all_iff sample_env_def sample_state_def)
  have l3: "length ?RS = 3" by simp
  from e3 la ln have d3: "\<exists>new. attendances ?S = attendances sample_state @ new
              \<and> list_all (\<lambda>a. a_date a = Date 2024 3 1 \<and> a_student_id a \<in> {1, 2}) new
              \<and> length new = 2"
    by (intro exI conjI)
  from full l3 c0 e1 e2 d3
  have "recognize ?F ?req sample_state = (?S, (200, Results ?RS))
        \<and> length ?RS = 3 \<and> r_name (?RS ! 0) = ''Unknown''
        \<and> students ?S = students sample_state \<and> faces ?S = faces sample_state
        \<and> (\<exists>new. attendances ?S = attendances sample_state @ new
              \<and> list_all (\<lambda>a. a_date a = Date 2024 3 1 \<and> a_student_id a \<in> {1, 2}) new
              \<and> length new = 2)"
    by (intro conjI)
  then have d: "\<exists>st' rs. recognize ?F ?req sample_state = (st', (200, Results rs))
        \<and> length rs = 3 \<and> r_name (rs ! 0) = ''Unknown''
        \<and> students st' = students sample_state \<and> faces st' = faces sample_state
        \<and> (\<exists>new. attendances st' = attendances sample_state @ new
              \<and> list_all (\<lambda>a. a_date a = Date 2024 3 1 \<and> a_student_id a \<in> {1, 2}) new
              \<and> length new = 2)"
    by (rule exI [where x = ?RS, THEN exI [where x = ?S]])
  from un0 a nil b img dec full un1' d show ?thesis by (intro conjI)
qed

section \<open>Claims about the reporting endpoints\<close>

text \<open>
  Claim C4. Let the two parameters parse to the dates of a range, the database
  read succeed and Student.id be a primary key. The export answers with a CSV
  whose rows after the header are as many as the attendance rows dated within
  the range, both ends included, that refer to a student of the table. When
  every attendance row refers to a student of the table, as the schema's
  foreign key says and as recognition requests keep it, that is the number of
  attendance rows dated within the range.
\<close>

theorem export_row_count:
  assumes sd: "parse_date env (start_date args) = Inr start_d"
    and ed: "parse_date env (end_date args) = Inr end_d"
    and read_ok: "read_error env 0 = None"
    and pk: "primary_key_ok st"
  shows "\<exists>rows disposition. export_csv env args st = (200, Csv (csv_header # rows) disposition)
     \<and> length rows = length (filter (\<lambda>a. in_range start_d end_d (a_date a)
                                  \<and> a_student_id a \<in> set (map s_id (students st))) (attendances st))
     \<and> (foreign_key_ok st \<longrightarrow>
          length rows = length (filter (\<lambda>a. in_range start_d end_d (a_date a)) (attendances st)))"
proof -
  let ?recs = "sort_key (\<lambda>(a, s). (date_key (a_date a), s_name s, datetime_key (a_timestamp a)))
                 (filter (\<lambda>(a, s). in_range start_d end_d (a_date a)) (attendance_join st))"
  let ?disp = "''attachment;filename=attendance_report_'' @ format_arg (start_date args)
                  @ ''_to_'' @ format_arg (end_date args) @ ''.csv''"
  have r: "export_csv env args st = (200, Csv (csv_header # map csv_row ?recs) ?disp)"
    using sd ed read_ok by (simp add: export_csv_def export_try_def Let_def)
  from pk have d: "distinct (map s_id (students st))" by (simp add: primary_key_ok_def)
  have len: "length (map csv_row ?recs)
      = length (filter (\<lambda>a. in_range start_d end_d (a_date a)
                                  \<and> a_student_id a \<in> set (map s_id (students st))) (attendances st))"
    using join_count [OF d, of "\<lambda>a. in_range start_d end_d (a_date a)" "attendances st"]
    by (simp add: attendance_join_def)
  have fk: "foreign_key_ok st \<longrightarrow>
      filter (\<lambda>a. in_range start_d end_d (a_date a)
                                  \<and> a_student_id a \<in> set (map s_id (students st))) (attendances st)
      = filter (\<lambda>a. in_range start_d end_d (a_date a)) (attendances st)"
    by (auto simp: foreign_key_ok_def list_all_iff intro: filter_cong)
  from r len fk show ?thesis by auto
qed

theorem export_row_count_witness:
  "parse_date (sample_env (Inr None) no_error no_error) (start_date march) = Inr (Date 2024 3 1)
   \<and> parse_date (sample_env (Inr None) no_error no_error) (end_date march) = Inr (Date 2024 3 31)
   \<and> read_error (sample_env (Inr None) no_error no_error) 0 = None
   \<and> primary_key_ok sample_report_state \<and> foreign_key_ok sample_report_state
   \<and> length (filter (\<lambda>a. in_range (Date 2024 3 1) (Date 2024 3 31) (a_date a))
        (attendances sample_report_state)) = 4
   \<and> (\<exists>rows disposition.
        export_csv (sample_env (Inr None) no_error no_error) march sample_report_state
          = (200, Csv (csv_header # rows) disposition)
        \<and> length rows = 4)"
proof -
  let ?E = "sample_env (Inr None) no_error no_error :: ((location \<times> real) list, real) env"
  have sd: "parse_date ?E (start_date march) = Inr (Date 2024 3 1)"
    by (simp add: report_eval_defs)
  have ed: "parse_date ?E (end_date march) = Inr (Date 2024 3 31)"
    by (simp add: report_eval_defs)
  have ro: "read_error ?E 0 = None" by (simp add: report_eval_defs)
  have pk: "primary_key_ok sample_report_state"
    by (simp add: primary_key_ok_def sample_report_state_def)
  have fk: "foreign_key_ok sample_report_state"
    by (simp add: foreign_key_ok_def sample_report_state_def)
  have n: "length (filter (\<lambda>a. in_range (Date 2024 3 1) (Date 2024 3 31) (a_date a))
        (attendances sample_report_state)) = 4"
    by (simp add: report_eval_defs)
  from export_row_count [OF sd ed ro pk] fk n
  have "\<exists>rows disposition.
        export_csv ?E march sample_report_state = (200, Csv (csv_header # rows) disposition)
        \<and> length rows = 4"
    by auto
  with sd ed ro pk fk n show ?thesis by blast
qed

text \<open>
  Claim C5. Let the two parameters parse to the dates of a range and the
  attendance rows hold dates that Python can represent. When the report is
  returned it has one row for every student, in the order of the table, and the
  present_count of a student's row is the number of distinct dates within the
  range on which the student has an attendance row. The report is returned
  whenever no database read raises.
\<close>

theorem present_count_distinct_dates:
  assumes valid: "\<forall>a\<in>set (attendances st). valid_date (a_date a)"
    and sd: "parse_date env (start_date args) = Inr start_d"
    and ed: "parse_date env (end_date args) = Inr end_d"
  shows "(get_reports_data env args st = (200, Report rows) \<longrightarrow>
            length rows = length (students st)
            \<and> (\<forall>k<length rows. rr_id (rows ! k) = s_id (students st ! k)
                 \<and> present_count (rows ! k) =
                     card {d. in_range start_d end_d d
                            \<and> (\<exists>a\<in>set (attendances st).
                                  a_student_id a = s_id (students st ! k) \<and> a_date a = d)}))
       \<and> ((\<forall>n. read_error env n = None) \<longrightarrow>
            (\<exists>rows'. get_reports_data env args st = (200, Report rows')))"
proof (intro conjI impI)
  assume r: "get_reports_data env args st = (200, Report rows)"
  with sd ed have l: "report_loop env start_d end_d st 0 (students st) = Inr rows"
    by (auto simp: get_reports_data_def get_reports_try_def split: option.splits sum.splits)
  note p = report_loop_rows [OF l]
  from p show "length rows = length (students st)" by blast
  show "\<forall>k<length rows. rr_id (rows ! k) = s_id (students st ! k)
                 \<and> present_count (rows ! k) =
                     card {d. in_range start_d end_d d
                            \<and> (\<exists>a\<in>set (attendances st).
                                  a_student_id a = s_id (students st ! k) \<and> a_date a = d)}"
  proof (intro allI impI)
    fix k assume "k < length rows"
    with p have k: "k < length (students st)" by simp
    with p have "rr_id (rows ! k) = s_id (students st ! k)"
      and "present_count (rows ! k) = length (remdups (map (\<lambda>r. isoformat (a_date r))
                 (filter (\<lambda>a. a_student_id a = s_id (students st ! k) \<and> in_range start_d end_d (a_date a))
                    (attendances st))))"
      by simp_all
    with count_distinct_dates [OF valid]
    show "rr_id (rows ! k) = s_id (students st ! k)
                 \<and> present_count (rows ! k) =
                     card {d. in_range start_d end_d d
                            \<and> (\<exists>a\<in>set (attendances st).
                                  a_student_id a = s_id (students st ! k) \<and> a_date a = d)}"
      by simp
  qed
next
  assume n: "\<forall>n. read_error env n = None"
  from report_loop_returns [OF n] obtain rows' where
    "report_loop env start_d end_d st 0 (students st) = Inr rows'" by blast
  with sd ed n show "\<exists>rows'. get_reports_data env args st = (200, Report rows')"
    by (simp add: get_reports_data_def get_reports_try_def)
qed

theorem present_count_distinct_dates_witness:
  "list_all (\<lambda>a. valid_date (a_date a)) (attendances sample_report_state)
   \<and> parse_date (sample_env (Inr None) no_error no_error) (start_date march) = Inr (Date 2024 3 1)
   \<and> parse_date (sample_env (Inr None) no_error no_error) (end_date march) = Inr (Date 2024 3 31)
   \<and> (\<forall>n. read_error (sample_env (Inr None) no_error no_error) n = None)
   \<and> get_reports_data (sample_env (Inr None) no_error no_error) march sample_report_state
      = (200, Report
          [\<lparr>rr_id = 1, rr_student_id = ''S001'', rr_name = ''Ada'',
             present_count = 2, present_dates = [''2024-03-01'', ''2024-03-15'']\<rparr>,
           \<lparr>rr_id = 2, rr_student_id = ''S002'', rr_name = ''Bob'',
             present_count = 1, present_dates = [''2024-03-10'']\<rparr>])
   \<and> card {d. in_range (Date 2024 3 1) (Date 2024 3 31) d
             \<and> (\<exists>a\<in>set (attendances sample_report_state). a_student_id a = 1 \<and> a_date a = d)} = 2"
proof -
  let ?E = "sample_env (Inr None) no_error no_error :: ((location \<times> real) list, real) env"
  let ?rows = "[\<lparr>rr_id = 1, rr_student_id = ''S001'', rr_name = ''Ada'',
             present_count = 2, present_dates = [''2024-03-01'', ''2024-03-15'']\<rparr>,
           \<lparr>rr_id = 2, rr_student_id = ''S002'', rr_name = ''Bob'',
             present_count = 1, present_dates = [''2024-03-10'']\<rparr>]"
  have v: "list_all (\<lambda>a. valid_date (a_date a)) (attendances sample_report_state)"
    by (simp add: sample_report_state_def valid_date_def)
  then have v': "\<forall>a\<in>set (attendances sample_report_state). valid_date (a_date a)"
    by (simp add: list_all_iff)
  have sd: "parse_date ?E (start_date march) = Inr (Date 2024 3 1)"
    by (simp add: report_eval_defs)
  have ed: "parse_date ?E (end_date march) = Inr (Date 2024 3 31)"
    by (simp add: report_eval_defs)
  have ne: "\<forall>n. read_error ?E n = None" by (simp add: report_eval_defs)
  have r: "get_reports_data ?E march sample_report_state = (200, Report ?rows)"
    by (simp add: report_eval_defs)
  from present_count_distinct_dates [OF v' sd ed, of ?rows] r
  have all: "\<forall>k<length ?rows. rr_id (?rows ! k) = s_id (students sample_report_state ! k)
      \<and> present_count (?rows ! k) =
          card {d. in_range (Date 2024 3 1) (Date 2024 3 31) d
             \<and> (\<exists>a\<in>set (attendances sample_report_state).
                   a_student_id a = s_id (students sample_report_state ! k) \<and> a_date a = d)}"
    by blast
  have "(0::nat) < length ?rows" by simp
  with all have "present_count (?rows ! 0) =
      card {d. in_range (Date 2024 3 1) (Date 2024 3 31) d
             \<and> (\<exists>a\<in>set (attendances sample_report_state).
                   a_student_id a = s_id (students sample_report_state ! 0) \<and> a_date a = d)}"
    by blast
  moreover have "s_id (students sample_report_state ! 0) = 1"
    by (simp add: sample_report_state_def)
  moreover have "present_count (?rows ! 0) = 2" by simp
  ultimately have c: "card {d. in_range (Date 2024 3 1) (Date 2024 3 31) d
             \<and> (\<exists>a\<in>set (attendances sample_report_state). a_student_id a = 1 \<and> a_date a = d)} = 2"
    by simp
  from v sd ed ne r c show ?thesis by blast
qed

end
